theory Spec2Isabelle
  imports Main "HOL-Library.Word" "HOL-Library.Sublist"
begin

section \<open>JavaScript values and string primitives\<close>

text \<open>
  The scheduler and the conversation loop handle values whose TypeScript type is
  \<^verbatim>\<open>unknown\<close>, \<^verbatim>\<open>any\<close> or a union (\<^verbatim>\<open>request.args\<close>,
  \<^verbatim>\<open>result.llmContent\<close>, \<^verbatim>\<open>PartListUnion\<close>). They are modelled by one datatype
  of JavaScript values. Strings are lists of 8-bit code units; numbers are the
  integer-valued ones (truthiness and decimal rendering are all the code asks of them).
  An object is the list of its own properties; every object of the model is a plain
  object without a \<^verbatim>\<open>toString\<close> of its own.
\<close>

datatype jsval =
    JUndefined
  | JNull
  | JBool bool
  | JNum int
  | JStr string
  | JArr "jsval list"
  | JObj "(string \<times> jsval) list"

text \<open>An \<^verbatim>\<open>Error\<close> object (a \<^verbatim>\<open>TypeError\<close> is one), with its \<^verbatim>\<open>message\<close>.\<close>

datatype js_error = Error (message: string)

text \<open>What a \<^verbatim>\<open>catch\<close> clause receives is \<^verbatim>\<open>unknown\<close>: an \<^verbatim>\<open>Error\<close> object, or
  any other value that was thrown or that a promise was rejected with (\<^verbatim>\<open>undefined\<close> and
  \<^verbatim>\<open>null\<close> among them).\<close>

datatype thrown = ThrownError js_error | ThrownValue jsval

definition newline :: string where
  "newline = [CHR 0x0A]"

definition apostrophe :: string where
  "apostrophe = [CHR 0x27]"

text \<open>\<^verbatim>\<open>!value\<close> is false exactly on the truthy values.\<close>

fun js_truthy :: "jsval \<Rightarrow> bool" where
  "js_truthy JUndefined = False"
| "js_truthy JNull = False"
| "js_truthy (JBool b) = b"
| "js_truthy (JNum n) = (n \<noteq> 0)"
| "js_truthy (JStr s) = (s \<noteq> [])"
| "js_truthy (JArr xs) = True"
| "js_truthy (JObj fs) = True"

text \<open>Decimal rendering of an integer, as a template literal renders a number
  (below \<open>10^21\<close> in magnitude, where JavaScript switches to exponent notation).\<close>

function show_nat :: "nat \<Rightarrow> string" where
  "show_nat n =
     (if n < 10 then [''0123456789'' ! n]
      else show_nat (n div 10) @ [''0123456789'' ! (n mod 10)])"
  by pat_completeness auto
termination
  by (relation "measure id") auto

declare show_nat.simps [simp del]

definition show_int :: "int \<Rightarrow> string" where
  "show_int i = (if i < 0 then CHR ''-'' # show_nat (nat (- i)) else show_nat (nat i))"

text \<open>\<^verbatim>\<open>Array.prototype.join\<close> on elements already converted to strings.\<close>

fun js_join :: "string \<Rightarrow> string list \<Rightarrow> string" where
  "js_join sep [] = []"
| "js_join sep [x] = x"
| "js_join sep (x # y # ys) = x @ sep @ js_join sep (y # ys)"

definition object_toString :: string where
  "object_toString = ''[object Object]''"

text \<open>\<^verbatim>\<open>String(v)\<close>, which is also what a template literal applies. An array joins its
  elements with a comma, an \<^verbatim>\<open>undefined\<close> or \<^verbatim>\<open>null\<close> element giving the empty
  string.\<close>

fun js_String :: "jsval \<Rightarrow> string" where
  "js_String JUndefined = ''undefined''"
| "js_String JNull = ''null''"
| "js_String (JBool b) = (if b then ''true'' else ''false'')"
| "js_String (JNum n) = show_int n"
| "js_String (JStr s) = s"
| "js_String (JArr xs) =
     js_join '','' (map (\<lambda>x. if x = JUndefined \<or> x = JNull then [] else js_String x) xs)"
| "js_String (JObj fs) = object_toString"

text \<open>\<^verbatim>\<open>array.join(sep)\<close> on an array of values.\<close>

definition array_join :: "string \<Rightarrow> jsval list \<Rightarrow> string" where
  "array_join sep xs =
     js_join sep (map (\<lambda>x. if x = JUndefined \<or> x = JNull then [] else js_String x) xs)"

text \<open>\<^verbatim>\<open>String.prototype.trim\<close>: white space and line terminators, within the 8-bit
  range of the model's strings (tab, LF, VT, FF, CR, space, no-break space).\<close>

definition js_whitespace :: "char \<Rightarrow> bool" where
  "js_whitespace c = (c \<in> set [CHR 0x09, CHR 0x0A, CHR 0x0B, CHR 0x0C, CHR 0x0D, CHR 0x20, CHR 0xA0])"

definition js_trim :: "string \<Rightarrow> string" where
  "js_trim s = rev (dropWhile js_whitespace (rev (dropWhile js_whitespace s)))"

text \<open>\<^verbatim>\<open>obj[key]\<close> on a plain object: the property's value, or \<^verbatim>\<open>undefined\<close>.\<close>

definition js_get :: "(string \<times> jsval) list \<Rightarrow> string \<Rightarrow> jsval" where
  "js_get fs key = (case map_of fs key of None \<Rightarrow> JUndefined | Some v \<Rightarrow> v)"

text \<open>\<^verbatim>\<open>${error.message}\<close> for a caught value \<^verbatim>\<open>error\<close>, as the \<^verbatim>\<open>catch\<close> of
  \<^verbatim>\<open>ToolScheduler.execute\<close> writes it after the cast \<^verbatim>\<open>e as Error\<close> (which does
  nothing at run time): the message of an \<^verbatim>\<open>Error\<close>; the \<^verbatim>\<open>message\<close> property of
  another object, converted to a string; \<^verbatim>\<open>undefined\<close>, converted to a string, for a
  primitive value; and reading the property of \<^verbatim>\<open>undefined\<close> or \<^verbatim>\<open>null\<close> throws a
  \<^verbatim>\<open>TypeError\<close>.\<close>

fun error_message_text :: "thrown \<Rightarrow> js_error + string" where
  "error_message_text (ThrownError err) = Inr (message err)"
| "error_message_text (ThrownValue JUndefined) =
     Inl (Error (''Cannot read properties of undefined (reading '' @ apostrophe @ ''message''
                   @ apostrophe @ '')''))"
| "error_message_text (ThrownValue JNull) =
     Inl (Error (''Cannot read properties of null (reading '' @ apostrophe @ ''message''
                   @ apostrophe @ '')''))"
| "error_message_text (ThrownValue (JObj fs)) = Inr (js_String (js_get fs ''message''))"
| "error_message_text (ThrownValue v) = Inr (js_String JUndefined)"

section \<open>Data model\<close>

text \<open>\<^verbatim>\<open>ToolCallRequestInfo\<close> (from the core package): the fields the code reads.\<close>

record ToolCallRequestInfo =
  callId :: string
  name :: string
  args :: "(string \<times> jsval) list"

text \<open>\<^verbatim>\<open>ToolResult\<close> of tool-scheduler.ts. Its \<^verbatim>\<open>callId\<close> field is named
  \<open>res_callId\<close> here, a record field being a constant of the theory.\<close>

record ToolResult =
  res_callId :: string
  result :: string

record ThoughtSummary =
  subject :: string
  description :: string

text \<open>\<^verbatim>\<open>BotMessage\<close>: the messages handed to the callback. \<^verbatim>\<open>FinishReason\<close> is a
  string enum.\<close>

datatype BotMessage =
    Content string
  | Thought ThoughtSummary
  | ToolCallRequestMsg ToolCallRequestInfo
  | ToolResultMsg ToolCallRequestInfo ToolResult
  | ErrorMsg string
  | Info string
  | Finished string string

text \<open>\<^verbatim>\<open>ServerGeminiStreamEvent\<close>, by its \<^verbatim>\<open>type\<close> tag, with the \<^verbatim>\<open>value\<close> the
  code reads. \<open>EvUnknown tag\<close> is an event object whose tag is none of the eleven the
  switch names; it reaches the \<^verbatim>\<open>default\<close> branch.\<close>

datatype ServerGeminiStreamEvent =
    EvThought ThoughtSummary
  | EvContent string
  | EvToolCallRequest ToolCallRequestInfo
  | EvError jsval
  | EvFinished string
  | EvUserCancelled
  | EvChatCompressed jsval
  | EvLoopDetected
  | EvToolCallConfirmation jsval
  | EvToolCallResponse jsval
  | EvMaxSessionTurns
  | EvUnknown string

text \<open>An \<^verbatim>\<open>AsyncIterable\<close> of events, consumed once: it yields an event, ends, or
  throws (the producer failing while the stream is read).\<close>

datatype stream =
    Done
  | Yield ServerGeminiStreamEvent stream
  | Fail thrown

text \<open>\<^verbatim>\<open>ShellExecutionResult\<close>: the structured outcome of a command. Its \<^verbatim>\<open>output\<close>
  field is named \<open>outputText\<close> here.\<close>

record ShellExecutionResult =
  outputText :: string
  rawOutput :: "8 word list"
  error :: "js_error option"
  aborted :: bool
  signal :: jsval
  exitCode :: int

section \<open>Collaborators\<close>

text \<open>
  The external world (file system, processes, the model's chat history, the random
  generator) is a state \<open>'w\<close> that every effectful collaborator takes and returns.
  A call that can throw or reject returns \<open>Inl\<close> of the thrown value.

  A tool of the registry is its \<^verbatim>\<open>build\<close>, which throws or returns an invocation; an
  invocation is its \<^verbatim>\<open>execute\<close>, which rejects or resolves to a result, given here by
  its \<^verbatim>\<open>llmContent\<close>. The registry is its \<^verbatim>\<open>getTool\<close>.
\<close>

type_synonym 'w ToolInvocation = "'w \<Rightarrow> (thrown + jsval) \<times> 'w"

type_synonym 'w Tool = "(string \<times> jsval) list \<Rightarrow> thrown + 'w ToolInvocation"

type_synonym 'w ToolRegistry = "string \<Rightarrow> 'w Tool option"

text \<open>\<^verbatim>\<open>GeminiClient\<close> is its \<^verbatim>\<open>sendMessageStream(prompt, signal, prompt_id)\<close>; the
  abort signal is freshly made and never aborted.\<close>

type_synonym 'w GeminiClient = "jsval \<Rightarrow> string \<Rightarrow> 'w \<Rightarrow> stream \<times> 'w"

record 'w Config =
  getGeminiClient :: "'w GeminiClient option"
  getSessionId :: string
  getToolRegistry :: "thrown + 'w ToolRegistry"
  getTargetDir :: "thrown + string"

text \<open>What the code imports from the core package and from the JavaScript runtime.
  \<open>Math_random\<close> gives the random number already rendered as a string.\<close>

record 'w Core =
  ShellExecutionService_execute :: "jsval \<Rightarrow> string \<Rightarrow> 'w \<Rightarrow> (thrown + ShellExecutionResult) \<times> 'w"
  isBinary :: "8 word list \<Rightarrow> bool"
  getErrorMessage :: "thrown \<Rightarrow> string"
  JSON_stringify :: "jsval \<Rightarrow> string"
  Math_random :: "'w \<Rightarrow> string \<times> 'w"

section \<open>tool-scheduler.ts\<close>

text \<open>\<^verbatim>\<open>result.llmContent?.toString() || ''\<close>\<close>

definition llmContent_toString :: "jsval \<Rightarrow> string" where
  "llmContent_toString c = (if c = JUndefined \<or> c = JNull then [] else js_String c)"

definition readFile ::
  "'w Core \<Rightarrow> 'w Config \<Rightarrow> (string \<times> jsval) list \<Rightarrow> 'w \<Rightarrow> (thrown + string) \<times> 'w" where
  "readFile core config a w =
     (case getToolRegistry config of
        Inl e \<Rightarrow> (Inl e, w)
      | Inr toolRegistry \<Rightarrow>
          (case toolRegistry ''read_file'' of
             None \<Rightarrow> (Inr ''[ERROR] read_file tool not found.'', w)
           | Some readFileTool \<Rightarrow>
               (case readFileTool a of
                  Inl e \<Rightarrow> (Inr (''[ERROR] Error reading file: '' @ getErrorMessage core e), w)
                | Inr invocation \<Rightarrow>
                    (case invocation w of
                       (Inl e, w') \<Rightarrow>
                         (Inr (''[ERROR] Error reading file: '' @ getErrorMessage core e), w')
                     | (Inr llmContent, w') \<Rightarrow> (Inr (llmContent_toString llmContent), w')))))"

definition replace ::
  "'w Core \<Rightarrow> 'w Config \<Rightarrow> (string \<times> jsval) list \<Rightarrow> 'w \<Rightarrow> (thrown + string) \<times> 'w" where
  "replace core config a w =
     (case getToolRegistry config of
        Inl e \<Rightarrow> (Inl e, w)
      | Inr toolRegistry \<Rightarrow>
          (case toolRegistry ''replace'' of
             None \<Rightarrow> (Inr ''[ERROR] replace tool not found.'', w)
           | Some replaceTool \<Rightarrow>
               (case replaceTool a of
                  Inl e \<Rightarrow> (Inr (''[ERROR] Error replacing content: '' @ getErrorMessage core e), w)
                | Inr invocation \<Rightarrow>
                    (case invocation w of
                       (Inl e, w') \<Rightarrow>
                         (Inr (''[ERROR] Error replacing content: '' @ getErrorMessage core e), w')
                     | (Inr llmContent, w') \<Rightarrow> (Inr (llmContent_toString llmContent), w')))))"

definition writeFile ::
  "'w Core \<Rightarrow> 'w Config \<Rightarrow> (string \<times> jsval) list \<Rightarrow> 'w \<Rightarrow> (thrown + string) \<times> 'w" where
  "writeFile core config a w =
     (case getToolRegistry config of
        Inl e \<Rightarrow> (Inl e, w)
      | Inr toolRegistry \<Rightarrow>
          (case toolRegistry ''write_file'' of
             None \<Rightarrow> (Inr ''[ERROR] write_file tool not found.'', w)
           | Some writeFileTool \<Rightarrow>
               (case writeFileTool a of
                  Inl e \<Rightarrow> (Inr (''[ERROR] Error writing file: '' @ getErrorMessage core e), w)
                | Inr invocation \<Rightarrow>
                    (case invocation w of
                       (Inl e, w') \<Rightarrow>
                         (Inr (''[ERROR] Error writing file: '' @ getErrorMessage core e), w')
                     | (Inr llmContent, w') \<Rightarrow> (Inr (llmContent_toString llmContent), w')))))"

definition readManyFiles ::
  "'w Core \<Rightarrow> 'w Config \<Rightarrow> (string \<times> jsval) list \<Rightarrow> 'w \<Rightarrow> (thrown + string) \<times> 'w" where
  "readManyFiles core config a w =
     (case getToolRegistry config of
        Inl e \<Rightarrow> (Inl e, w)
      | Inr toolRegistry \<Rightarrow>
          (case toolRegistry ''read_many_files'' of
             None \<Rightarrow> (Inr ''[ERROR] read_many_files tool not found.'', w)
           | Some readManyFilesTool \<Rightarrow>
               (case readManyFilesTool a of
                  Inl e \<Rightarrow> (Inr (''[ERROR] Error reading files: '' @ getErrorMessage core e), w)
                | Inr invocation \<Rightarrow>
                    (case invocation w of
                       (Inl e, w') \<Rightarrow>
                         (Inr (''[ERROR] Error reading files: '' @ getErrorMessage core e), w')
                     | (Inr llmContent, w') \<Rightarrow>
                         (case llmContent of
                            JArr parts \<Rightarrow> (Inr (array_join newline parts), w')
                          | _ \<Rightarrow> (Inr (llmContent_toString llmContent), w'))))))"

text \<open>Lines 155 to 171 of \<^verbatim>\<open>runShellCommand\<close>: the text for an execution result.\<close>

definition executionResult_text :: "'w Core \<Rightarrow> ShellExecutionResult \<Rightarrow> string" where
  "executionResult_text core executionResult =
     (case error executionResult of
        Some err \<Rightarrow> ''[ERROR] '' @ message err @ newline @ outputText executionResult
      | None \<Rightarrow>
          if aborted executionResult then
            ''[CANCELLED] Command was cancelled.'' @ newline @ outputText executionResult
          else if js_truthy (signal executionResult) then
            ''[ERROR] Command terminated by signal: '' @ js_String (signal executionResult)
              @ ''.'' @ newline @ outputText executionResult
          else if exitCode executionResult \<noteq> 0 then
            ''[ERROR] Command exited with code '' @ show_int (exitCode executionResult)
              @ ''.'' @ newline @ outputText executionResult
          else if isBinary core (rawOutput executionResult) then
            ''[Command produced binary output, which is not shown.]''
          else if js_trim (outputText executionResult) = [] then ''(Command produced no output)''
          else js_trim (outputText executionResult))"

definition runShellCommand ::
  "'w Core \<Rightarrow> 'w Config \<Rightarrow> jsval \<Rightarrow> 'w \<Rightarrow> (thrown + string) \<times> 'w" where
  "runShellCommand core config command w =
     (if \<not> js_truthy command then (Inr ''[ERROR] No command provided to run_shell_command.'', w)
      else
        (case getTargetDir config of
           Inl e \<Rightarrow> (Inl e, w)
         | Inr targetDir \<Rightarrow>
             (case ShellExecutionService_execute core command targetDir w of
                (Inl e, w') \<Rightarrow> (Inl e, w')
              | (Inr executionResult, w') \<Rightarrow> (Inr (executionResult_text core executionResult), w'))))"

text \<open>The body of the \<^verbatim>\<open>for\<close> loop of \<^verbatim>\<open>execute\<close>: the \<^verbatim>\<open>switch\<close> inside its
  \<^verbatim>\<open>try\<close>, the \<^verbatim>\<open>catch\<close>, and the result that is pushed.\<close>

definition execute_switch ::
  "'w Core \<Rightarrow> 'w Config \<Rightarrow> ToolCallRequestInfo \<Rightarrow> 'w \<Rightarrow> (thrown + string) \<times> 'w" where
  "execute_switch core config request w =
     (if name request = ''run_shell_command'' then
        runShellCommand core config (js_get (args request) ''command'') w
      else if name request = ''read_many_files'' then readManyFiles core config (args request) w
      else if name request = ''read_file'' then readFile core config (args request) w
      else if name request = ''write_file'' then writeFile core config (args request) w
      else if name request = ''replace'' then replace core config (args request) w
      else (Inr (''[ERROR] Tool '' @ apostrophe @ name request @ apostrophe
                   @ '' is not implemented.''), w))"

definition execute_request ::
  "'w Core \<Rightarrow> 'w Config \<Rightarrow> ToolCallRequestInfo \<Rightarrow> 'w \<Rightarrow> (thrown + ToolResult) \<times> 'w" where
  "execute_request core config request w =
     (case execute_switch core config request w of
        (Inr resultText, w') \<Rightarrow> (Inr \<lparr>res_callId = callId request, result = resultText\<rparr>, w')
      | (Inl e, w') \<Rightarrow>
          (case error_message_text e of
             Inl typeError \<Rightarrow> (Inl (ThrownError typeError), w')
           | Inr messageText \<Rightarrow>
               (Inr \<lparr>res_callId = callId request,
                     result = ''[ERROR] Tool '' @ apostrophe @ name request @ apostrophe
                                @ '' failed: '' @ messageText\<rparr>, w')))"

text \<open>\<^verbatim>\<open>execute\<close>: the loop over the requests, with the \<^verbatim>\<open>results\<close> array as
  accumulator. Its value is \<open>Inr\<close> of the array it returns, or \<open>Inl\<close> of what is thrown
  out of it (by the \<^verbatim>\<open>catch\<close> clause itself), the results so far being lost.\<close>

fun execute_loop ::
  "'w Core \<Rightarrow> 'w Config \<Rightarrow> ToolCallRequestInfo list \<Rightarrow> ToolResult list \<Rightarrow> 'w
     \<Rightarrow> (thrown + ToolResult list) \<times> 'w" where
  "execute_loop core config [] results w = (Inr results, w)"
| "execute_loop core config (request # requests) results w =
     (case execute_request core config request w of
        (Inl e, w') \<Rightarrow> (Inl e, w')
      | (Inr r, w') \<Rightarrow> execute_loop core config requests (results @ [r]) w')"

definition execute ::
  "'w Core \<Rightarrow> 'w Config \<Rightarrow> ToolCallRequestInfo list \<Rightarrow> 'w \<Rightarrow> (thrown + ToolResult list) \<times> 'w" where
  "execute core config requests w = execute_loop core config requests [] w"

section \<open>library.ts\<close>

text \<open>
  The callback is supplied by the caller. The model records the messages it is called
  with in a log, and lets the callback throw: \<open>callback log m\<close> is \<open>None\<close> when the call
  with the message \<open>m\<close>, after the messages of \<open>log\<close>, returns, and \<open>Some e\<close> when it
  throws \<open>e\<close>. The message of a call that throws is in the log too.
\<close>

type_synonym BotMessageCallback = "BotMessage list \<Rightarrow> BotMessage \<Rightarrow> thrown option"

text \<open>
  \<^verbatim>\<open>processStream\<close>: the \<^verbatim>\<open>for await\<close> loop, with the array
  \<^verbatim>\<open>toolCallRequests\<close> and the log as accumulators. A stream or a callback that throws
  makes \<^verbatim>\<open>processStream\<close> throw, with the messages emitted so far in the log. The
  \<^verbatim>\<open>default\<close> branch interpolates the event object itself, a plain object, into the
  template literal.
\<close>

fun processStream_loop ::
  "'w Core \<Rightarrow> BotMessageCallback \<Rightarrow> stream \<Rightarrow> string \<Rightarrow> ToolCallRequestInfo list
     \<Rightarrow> BotMessage list \<Rightarrow> (thrown + ToolCallRequestInfo list) \<times> BotMessage list" where
  "processStream_loop core callback Done prompt_id toolCallRequests log = (Inr toolCallRequests, log)"
| "processStream_loop core callback (Fail e) prompt_id toolCallRequests log = (Inl e, log)"
| "processStream_loop core callback (Yield (EvThought v) rest) prompt_id toolCallRequests log =
     (case callback log (Thought v) of
        Some e \<Rightarrow> (Inl e, log @ [Thought v])
      | None \<Rightarrow>
          processStream_loop core callback rest prompt_id toolCallRequests (log @ [Thought v]))"
| "processStream_loop core callback (Yield (EvContent v) rest) prompt_id toolCallRequests log =
     (case callback log (Content v) of
        Some e \<Rightarrow> (Inl e, log @ [Content v])
      | None \<Rightarrow>
          processStream_loop core callback rest prompt_id toolCallRequests (log @ [Content v]))"
| "processStream_loop core callback (Yield (EvToolCallRequest v) rest) prompt_id toolCallRequests log =
     (case callback log (ToolCallRequestMsg v) of
        Some e \<Rightarrow> (Inl e, log @ [ToolCallRequestMsg v])
      | None \<Rightarrow>
          processStream_loop core callback rest prompt_id (toolCallRequests @ [v])
            (log @ [ToolCallRequestMsg v]))"
| "processStream_loop core callback (Yield (EvError v) rest) prompt_id toolCallRequests log =
     (case callback log (ErrorMsg (JSON_stringify core v)) of
        Some e \<Rightarrow> (Inl e, log @ [ErrorMsg (JSON_stringify core v)])
      | None \<Rightarrow>
          processStream_loop core callback rest prompt_id toolCallRequests
            (log @ [ErrorMsg (JSON_stringify core v)]))"
| "processStream_loop core callback (Yield (EvFinished v) rest) prompt_id toolCallRequests log =
     (case callback log (Finished v prompt_id) of
        Some e \<Rightarrow> (Inl e, log @ [Finished v prompt_id])
      | None \<Rightarrow>
          processStream_loop core callback rest prompt_id toolCallRequests
            (log @ [Finished v prompt_id]))"
| "processStream_loop core callback (Yield EvUserCancelled rest) prompt_id toolCallRequests log =
     (case callback log (Info ''Request cancelled by user.'') of
        Some e \<Rightarrow> (Inl e, log @ [Info ''Request cancelled by user.''])
      | None \<Rightarrow>
          processStream_loop core callback rest prompt_id toolCallRequests
            (log @ [Info ''Request cancelled by user.'']))"
| "processStream_loop core callback (Yield (EvChatCompressed v) rest) prompt_id toolCallRequests log =
     (case callback log (Info ''Chat history was compressed.'') of
        Some e \<Rightarrow> (Inl e, log @ [Info ''Chat history was compressed.''])
      | None \<Rightarrow>
          processStream_loop core callback rest prompt_id toolCallRequests
            (log @ [Info ''Chat history was compressed.'']))"
| "processStream_loop core callback (Yield EvLoopDetected rest) prompt_id toolCallRequests log =
     (case callback log (ErrorMsg ''Loop detected. Halting execution.'') of
        Some e \<Rightarrow> (Inl e, log @ [ErrorMsg ''Loop detected. Halting execution.''])
      | None \<Rightarrow>
          processStream_loop core callback rest prompt_id toolCallRequests
            (log @ [ErrorMsg ''Loop detected. Halting execution.'']))"
| "processStream_loop core callback (Yield (EvToolCallConfirmation v) rest) prompt_id toolCallRequests log =
     processStream_loop core callback rest prompt_id toolCallRequests log"
| "processStream_loop core callback (Yield (EvToolCallResponse v) rest) prompt_id toolCallRequests log =
     processStream_loop core callback rest prompt_id toolCallRequests log"
| "processStream_loop core callback (Yield EvMaxSessionTurns rest) prompt_id toolCallRequests log =
     processStream_loop core callback rest prompt_id toolCallRequests log"
| "processStream_loop core callback (Yield (EvUnknown tag) rest) prompt_id toolCallRequests log =
     (case callback log (ErrorMsg (''Unknown event type: '' @ object_toString)) of
        Some e \<Rightarrow> (Inl e, log @ [ErrorMsg (''Unknown event type: '' @ object_toString)])
      | None \<Rightarrow>
          processStream_loop core callback rest prompt_id toolCallRequests
            (log @ [ErrorMsg (''Unknown event type: '' @ object_toString)]))"

definition processStream ::
  "'w Core \<Rightarrow> stream \<Rightarrow> BotMessageCallback \<Rightarrow> BotMessage list \<Rightarrow> string
     \<Rightarrow> (thrown + ToolCallRequestInfo list) \<times> BotMessage list" where
  "processStream core stream callback log prompt_id =
     processStream_loop core callback stream prompt_id [] log"

text \<open>\<^verbatim>\<open>toolCallRequests.find((req) => req.callId === result.callId)\<close>\<close>

definition originalRequest_of :: "ToolCallRequestInfo list \<Rightarrow> ToolResult \<Rightarrow> ToolCallRequestInfo option" where
  "originalRequest_of toolCallRequests r = find (\<lambda>req. callId req = res_callId r) toolCallRequests"

text \<open>Lines 207 to 214: the loop that informs the bot about the tool results. Its value
  is what a callback threw, if one did, and the log.\<close>

fun inform_results ::
  "BotMessageCallback \<Rightarrow> ToolCallRequestInfo list \<Rightarrow> ToolResult list \<Rightarrow> BotMessage list
     \<Rightarrow> thrown option \<times> BotMessage list" where
  "inform_results callback toolCallRequests [] log = (None, log)"
| "inform_results callback toolCallRequests (r # rs) log =
     (case originalRequest_of toolCallRequests r of
        Some originalRequest \<Rightarrow>
          (case callback log (ToolResultMsg originalRequest r) of
             Some e \<Rightarrow> (Some e, log @ [ToolResultMsg originalRequest r])
           | None \<Rightarrow>
               inform_results callback toolCallRequests rs
                 (log @ [ToolResultMsg originalRequest r]))
      | None \<Rightarrow> inform_results callback toolCallRequests rs log)"

text \<open>The \<^verbatim>\<open>Part\<close> built for one result:
  \<^verbatim>\<open>{ functionResponse: { name, response: { name, content } } }\<close>.\<close>

definition functionResponse_part :: "string \<Rightarrow> string \<Rightarrow> jsval" where
  "functionResponse_part nm content =
     JObj [(''functionResponse'',
            JObj [(''name'', JStr nm),
                  (''response'', JObj [(''name'', JStr nm), (''content'', JStr content)])])]"

text \<open>\<^verbatim>\<open>originalRequest?.name || ''\<close>\<close>

definition originalRequest_name :: "ToolCallRequestInfo option \<Rightarrow> string" where
  "originalRequest_name originalRequest =
     (case originalRequest of
        None \<Rightarrow> []
      | Some req \<Rightarrow> if name req = [] then [] else name req)"

text \<open>Lines 217 to 231: the parts sent back to the model.\<close>

definition toolResponseParts :: "ToolCallRequestInfo list \<Rightarrow> ToolResult list \<Rightarrow> jsval list" where
  "toolResponseParts toolCallRequests toolResults =
     map (\<lambda>r. functionResponse_part
                 (originalRequest_name (originalRequest_of toolCallRequests r)) (result r))
       toolResults"

text \<open>The scheduler the loop calls, by its \<^verbatim>\<open>execute\<close>.\<close>

type_synonym 'w Scheduler = "ToolCallRequestInfo list \<Rightarrow> 'w \<Rightarrow> (thrown + ToolResult list) \<times> 'w"

text \<open>One iteration of the \<^verbatim>\<open>while (true)\<close> loop of \<^verbatim>\<open>streamQuery\<close>: it leaves
  the loop by \<^verbatim>\<open>break\<close>, goes on with a new \<^verbatim>\<open>currentPrompt\<close>, or throws.\<close>

datatype turn_exit = TurnBreak | TurnContinue jsval | TurnThrow thrown

definition streamQuery_turn ::
  "'w Core \<Rightarrow> 'w Config \<Rightarrow> 'w GeminiClient \<Rightarrow> 'w Scheduler \<Rightarrow> BotMessageCallback \<Rightarrow> jsval \<Rightarrow> 'w
     \<Rightarrow> BotMessage list \<Rightarrow> turn_exit \<times> 'w \<times> BotMessage list" where
  "streamQuery_turn core config geminiClient toolScheduler callback currentPrompt w log =
     (case Math_random core w of
        (rnd, w1) \<Rightarrow>
          (case geminiClient currentPrompt (getSessionId config @ ''########'' @ rnd) w1 of
             (stream, w2) \<Rightarrow>
               (case processStream core stream callback log
                       (getSessionId config @ ''########'' @ rnd) of
                  (Inl e, log1) \<Rightarrow> (TurnThrow e, w2, log1)
                | (Inr toolCallRequests, log1) \<Rightarrow>
                    if length toolCallRequests = 0 then (TurnBreak, w2, log1)
                    else
                      (case toolScheduler toolCallRequests w2 of
                         (Inl e, w3) \<Rightarrow> (TurnThrow e, w3, log1)
                       | (Inr toolResults, w3) \<Rightarrow>
                           (case inform_results callback toolCallRequests toolResults log1 of
                              (Some e, log2) \<Rightarrow> (TurnThrow e, w3, log2)
                            | (None, log2) \<Rightarrow>
                                (TurnContinue
                                   (JArr (toolResponseParts toolCallRequests toolResults)),
                                 w3, log2))))))"

text \<open>The \<^verbatim>\<open>while (true)\<close> loop, which may run forever: \<open>fuel\<close> bounds the number of
  turns, and \<open>OutOfFuel\<close>, with the log so far, is the loop still running.\<close>

datatype loop_exit = Break | Thrown thrown | OutOfFuel

fun streamQuery_loop ::
  "'w Core \<Rightarrow> 'w Config \<Rightarrow> 'w GeminiClient \<Rightarrow> 'w Scheduler \<Rightarrow> BotMessageCallback \<Rightarrow> nat
     \<Rightarrow> jsval \<Rightarrow> 'w \<Rightarrow> BotMessage list \<Rightarrow> loop_exit \<times> 'w \<times> BotMessage list" where
  "streamQuery_loop core config geminiClient toolScheduler callback 0 currentPrompt w log =
     (OutOfFuel, w, log)"
| "streamQuery_loop core config geminiClient toolScheduler callback (Suc fuel) currentPrompt w log =
     (case streamQuery_turn core config geminiClient toolScheduler callback currentPrompt w log of
        (TurnBreak, w', log') \<Rightarrow> (Break, w', log')
      | (TurnThrow e, w', log') \<Rightarrow> (Thrown e, w', log')
      | (TurnContinue nextPrompt, w', log') \<Rightarrow>
          streamQuery_loop core config geminiClient toolScheduler callback fuel nextPrompt w' log')"

text \<open>How a call of \<^verbatim>\<open>streamQuery\<close> ends: it returns, it throws (its promise is
  rejected), or it is still running when the fuel is spent.\<close>

datatype run_exit = Returned | Raised thrown | StillRunning

text \<open>The \<^verbatim>\<open>catch\<close> clause of \<^verbatim>\<open>streamQuery\<close>: one call of the callback, with an
  error message. What that call throws is thrown out of \<^verbatim>\<open>streamQuery\<close>.\<close>

definition streamQuery_catch ::
  "'w Core \<Rightarrow> BotMessageCallback \<Rightarrow> thrown \<Rightarrow> 'w \<Rightarrow> BotMessage list
     \<Rightarrow> run_exit \<times> 'w \<times> BotMessage list" where
  "streamQuery_catch core callback e w log =
     (case callback log (ErrorMsg (getErrorMessage core e)) of
        Some e' \<Rightarrow> (Raised e', w, log @ [ErrorMsg (getErrorMessage core e)])
      | None \<Rightarrow> (Returned, w, log @ [ErrorMsg (getErrorMessage core e)]))"

text \<open>The \<^verbatim>\<open>try\<close> statement of \<^verbatim>\<open>streamQuery\<close>, entered with a prompt, a world and
  a log: the loop, and the \<^verbatim>\<open>catch\<close> clause for what is thrown in it.\<close>

definition streamQuery_try ::
  "'w Core \<Rightarrow> 'w Config \<Rightarrow> 'w GeminiClient \<Rightarrow> 'w Scheduler \<Rightarrow> BotMessageCallback \<Rightarrow> nat
     \<Rightarrow> jsval \<Rightarrow> 'w \<Rightarrow> BotMessage list \<Rightarrow> run_exit \<times> 'w \<times> BotMessage list" where
  "streamQuery_try core config geminiClient toolScheduler callback fuel currentPrompt w log =
     (case streamQuery_loop core config geminiClient toolScheduler callback fuel currentPrompt w log of
        (Break, w', log') \<Rightarrow> (Returned, w', log')
      | (Thrown e, w', log') \<Rightarrow> streamQuery_catch core callback e w' log'
      | (OutOfFuel, w', log') \<Rightarrow> (StillRunning, w', log'))"

text \<open>\<^verbatim>\<open>streamQuery\<close>, for a given scheduler. Without a Gemini client it throws before
  the \<^verbatim>\<open>try\<close> statement. The log starts empty.\<close>

definition streamQuery_with ::
  "'w Core \<Rightarrow> 'w Config \<Rightarrow> 'w Scheduler \<Rightarrow> BotMessageCallback \<Rightarrow> nat \<Rightarrow> jsval \<Rightarrow> 'w
     \<Rightarrow> run_exit \<times> 'w \<times> BotMessage list" where
  "streamQuery_with core config toolScheduler callback fuel prompt w =
     (case getGeminiClient config of
        None \<Rightarrow> (Raised (ThrownError (Error ''Gemini client is not initialized.'')), w, [])
      | Some geminiClient \<Rightarrow>
          streamQuery_try core config geminiClient toolScheduler callback fuel prompt w [])"

text \<open>\<^verbatim>\<open>streamQuery\<close> as written, with \<^verbatim>\<open>new ToolScheduler(config)\<close>.\<close>

definition streamQuery ::
  "'w Core \<Rightarrow> 'w Config \<Rightarrow> BotMessageCallback \<Rightarrow> nat \<Rightarrow> jsval \<Rightarrow> 'w
     \<Rightarrow> run_exit \<times> 'w \<times> BotMessage list" where
  "streamQuery core config callback = streamQuery_with core config (execute core config) callback"

section \<open>Notions used to state the properties\<close>

text \<open>The events a stream yields before it ends or throws, and the error it throws.\<close>

fun stream_events :: "stream \<Rightarrow> ServerGeminiStreamEvent list" where
  "stream_events Done = []"
| "stream_events (Fail e) = []"
| "stream_events (Yield event rest) = event # stream_events rest"

fun stream_failure :: "stream \<Rightarrow> thrown option" where
  "stream_failure Done = None"
| "stream_failure (Fail e) = Some e"
| "stream_failure (Yield event rest) = stream_failure rest"

text \<open>The table of the classifier: the messages one event makes the callback receive,
  and the requests it adds to the collected list.\<close>

fun event_messages :: "'w Core \<Rightarrow> string \<Rightarrow> ServerGeminiStreamEvent \<Rightarrow> BotMessage list" where
  "event_messages core prompt_id (EvThought v) = [Thought v]"
| "event_messages core prompt_id (EvContent v) = [Content v]"
| "event_messages core prompt_id (EvToolCallRequest v) = [ToolCallRequestMsg v]"
| "event_messages core prompt_id (EvError v) = [ErrorMsg (JSON_stringify core v)]"
| "event_messages core prompt_id (EvFinished v) = [Finished v prompt_id]"
| "event_messages core prompt_id EvUserCancelled = [Info ''Request cancelled by user.'']"
| "event_messages core prompt_id (EvChatCompressed v) = [Info ''Chat history was compressed.'']"
| "event_messages core prompt_id EvLoopDetected = [ErrorMsg ''Loop detected. Halting execution.'']"
| "event_messages core prompt_id (EvToolCallConfirmation v) = []"
| "event_messages core prompt_id (EvToolCallResponse v) = []"
| "event_messages core prompt_id EvMaxSessionTurns = []"
| "event_messages core prompt_id (EvUnknown tag) = [ErrorMsg ''Unknown event type: [object Object]'']"

fun event_requests :: "ServerGeminiStreamEvent \<Rightarrow> ToolCallRequestInfo list" where
  "event_requests (EvToolCallRequest v) = [v]"
| "event_requests event = []"

definition stream_messages :: "'w Core \<Rightarrow> string \<Rightarrow> stream \<Rightarrow> BotMessage list" where
  "stream_messages core prompt_id s = concat (map (event_messages core prompt_id) (stream_events s))"

definition stream_requests :: "stream \<Rightarrow> ToolCallRequestInfo list" where
  "stream_requests s = concat (map event_requests (stream_events s))"

text \<open>Handing a list of messages to a callback, in order, after the messages of \<open>log\<close>,
  up to the first call that throws: what was thrown, if anything, and the log.\<close>

fun deliver :: "BotMessageCallback \<Rightarrow> BotMessage list \<Rightarrow> BotMessage list
    \<Rightarrow> thrown option \<times> BotMessage list" where
  "deliver callback log [] = (None, log)"
| "deliver callback log (m # ms) =
     (case callback log m of
        Some e \<Rightarrow> (Some e, log @ [m])
      | None \<Rightarrow> deliver callback (log @ [m]) ms)"

text \<open>The messages the loop of lines 207 to 214 hands to the callback, when no call
  throws.\<close>

definition tool_result_messages :: "ToolCallRequestInfo list \<Rightarrow> ToolResult list \<Rightarrow> BotMessage list" where
  "tool_result_messages toolCallRequests toolResults =
     concat (map (\<lambda>r. case originalRequest_of toolCallRequests r of
                          Some originalRequest \<Rightarrow> [ToolResultMsg originalRequest r]
                        | None \<Rightarrow> [])
               toolResults)"

text \<open>A log in which every \<^verbatim>\<open>tool_result\<close> message comes after the
  \<^verbatim>\<open>tool_call_request\<close> message of its request, whose callId is the result's. \<open>seen\<close>
  holds the messages before the part of the log that is looked at.\<close>

fun results_follow_requests :: "BotMessage list \<Rightarrow> BotMessage list \<Rightarrow> bool" where
  "results_follow_requests seen [] = True"
| "results_follow_requests seen (ToolResultMsg req r # ms) =
     (ToolCallRequestMsg req \<in> set seen \<and> callId req = res_callId r
      \<and> results_follow_requests (seen @ [ToolResultMsg req r]) ms)"
| "results_follow_requests seen (m # ms) = results_follow_requests (seen @ [m]) ms"

text \<open>The names the \<^verbatim>\<open>switch\<close> of \<^verbatim>\<open>execute\<close> sends to a tool of the registry.\<close>

definition registry_tool_names :: "string list" where
  "registry_tool_names = [''read_many_files'', ''read_file'', ''write_file'', ''replace'']"

text \<open>A name resolves to no registered operation: it is none of the names of the
  \<^verbatim>\<open>switch\<close>, or it is one that the \<^verbatim>\<open>switch\<close> looks up in the registry and the
  registry has no tool under it. (\<^verbatim>\<open>run_shell_command\<close> is built in.)\<close>

definition unregistered :: "'w Config \<Rightarrow> string \<Rightarrow> bool" where
  "unregistered config nm =
     (if nm \<in> set registry_tool_names then
        (case getToolRegistry config of
           Inl e \<Rightarrow> False
         | Inr toolRegistry \<Rightarrow> toolRegistry nm = None)
      else nm \<noteq> ''run_shell_command'')"

text \<open>The normalisation of a tool's content in the words of the specification: a sequence
  of parts is joined with newlines; otherwise the content is stringified; an absent
  payload is the empty text.\<close>

definition spec_normalize :: "jsval \<Rightarrow> string" where
  "spec_normalize c =
     (case c of
        JArr parts \<Rightarrow> array_join newline parts
      | JUndefined \<Rightarrow> []
      | JNull \<Rightarrow> []
      | _ \<Rightarrow> js_String c)"

section \<open>Example collaborators\<close>

text \<open>Concrete collaborators, on which the theorems below are instantiated. Their world
  is the list of the calls made so far.\<close>

definition demo_getErrorMessage :: "thrown \<Rightarrow> string" where
  "demo_getErrorMessage e =
     (case e of ThrownError err \<Rightarrow> message err | ThrownValue v \<Rightarrow> js_String v)"

definition demo_core :: "string list Core" where
  "demo_core =
     \<lparr>ShellExecutionService_execute =
        (\<lambda>command dir w.
           if command = JStr ''ls'' then
             (Inr \<lparr>outputText = ''a.txt'' @ newline, rawOutput = [97, 46, 116, 120, 116, 10],
                    error = None, aborted = False, signal = JNull, exitCode = 0\<rparr>,
              w @ [''shell''])
           else (Inl (ThrownError (Error ''spawn failed'')), w @ [''shell''])),
      isBinary = (\<lambda>bytes. 0 \<in> set bytes),
      getErrorMessage = demo_getErrorMessage,
      JSON_stringify = js_String,
      Math_random = (\<lambda>w. (''0.5'', w))\<rparr>"

text \<open>A registry whose \<^verbatim>\<open>read_file\<close> succeeds, whose \<^verbatim>\<open>write_file\<close> throws in
  \<^verbatim>\<open>build\<close>, whose \<^verbatim>\<open>read_many_files\<close> rejects in \<^verbatim>\<open>execute\<close>, and which has no
  \<^verbatim>\<open>replace\<close>.\<close>

definition demo_registry :: "string list ToolRegistry" where
  "demo_registry nm =
     (if nm = ''read_file'' then
        Some (\<lambda>a. Inr (\<lambda>w. (Inr (JStr ''file content''), w @ [''read_file''])))
      else if nm = ''write_file'' then Some (\<lambda>a. Inl (ThrownError (Error ''path is required'')))
      else if nm = ''read_many_files'' then
        Some (\<lambda>a. Inr (\<lambda>w. (Inl (ThrownError (Error ''ENOENT'')), w @ [''read_many_files''])))
      else None)"

definition demo_config :: "string list Config" where
  "demo_config =
     \<lparr>getGeminiClient = None,
      getSessionId = ''session-id'',
      getToolRegistry = Inr demo_registry,
      getTargetDir = Inr ''/tmp''\<rparr>"

definition demo_request :: "string \<Rightarrow> string \<Rightarrow> (string \<times> jsval) list \<Rightarrow> ToolCallRequestInfo" where
  "demo_request c nm a = \<lparr>callId = c, name = nm, args = a\<rparr>"

definition demo_requests :: "ToolCallRequestInfo list" where
  "demo_requests =
     [demo_request ''1'' ''run_shell_command'' [(''command'', JStr ''ls'')],
      demo_request ''2'' ''write_file'' [],
      demo_request ''3'' ''read_many_files'' [(''paths'', JArr [JStr ''a.txt''])],
      demo_request ''4'' ''run_shell_command'' [(''command'', JStr ''false'')],
      demo_request ''5'' ''read_file'' [(''path'', JStr ''a.txt'')]]"

text \<open>A core whose shell service resolves every command to the given result, and records
  the call.\<close>

definition shell_core :: "ShellExecutionResult \<Rightarrow> string list Core" where
  "shell_core r =
     \<lparr>ShellExecutionService_execute = (\<lambda>command dir w. (Inr r, w @ [''shell''])),
      isBinary = (\<lambda>bytes. 0 \<in> set bytes),
      getErrorMessage = demo_getErrorMessage,
      JSON_stringify = js_String,
      Math_random = (\<lambda>w. (''0.5'', w))\<rparr>"

definition shell_result :: "string \<Rightarrow> 8 word list \<Rightarrow> int \<Rightarrow> ShellExecutionResult" where
  "shell_result out raw code =
     \<lparr>outputText = out, rawOutput = raw, error = None, aborted = False, signal = JNull,
      exitCode = code\<rparr>"

text \<open>A configuration with an empty registry.\<close>

definition empty_registry_config :: "string list Config" where
  "empty_registry_config =
     \<lparr>getGeminiClient = None,
      getSessionId = ''session-id'',
      getToolRegistry = Inr (\<lambda>nm. None),
      getTargetDir = Inr ''/tmp''\<rparr>"

text \<open>A configuration in whose registry every tool builds and resolves to the given
  content, and records the call.\<close>

definition content_config :: "jsval \<Rightarrow> string list Config" where
  "content_config c =
     \<lparr>getGeminiClient = None,
      getSessionId = ''session-id'',
      getToolRegistry = Inr (\<lambda>nm. Some (\<lambda>a. Inr (\<lambda>w. (Inr c, w @ [nm])))),
      getTargetDir = Inr ''/tmp''\<rparr>"

text \<open>A client as in library.test.ts: its first stream asks for one tool call and
  finishes, its later streams give the final answer. It records its calls.\<close>

definition demo_tool_request :: ToolCallRequestInfo where
  "demo_tool_request = demo_request ''123'' ''run_shell_command'' [(''command'', JStr ''ls'')]"

definition demo_client :: "string list GeminiClient" where
  "demo_client prompt prompt_id w =
     (if ''sendMessageStream'' \<in> set w then Yield (EvContent ''final answer'') Done
      else Yield (EvToolCallRequest demo_tool_request) (Yield (EvFinished ''STOP'') Done),
      w @ [''sendMessageStream''])"

definition client_config :: "string list GeminiClient \<Rightarrow> string list Config" where
  "client_config client =
     \<lparr>getGeminiClient = Some client,
      getSessionId = ''session-id'',
      getToolRegistry = Inr demo_registry,
      getTargetDir = Inr ''/tmp''\<rparr>"

text \<open>A scheduler that returns a result for the request of \<open>demo_client\<close> and one whose
  callId no request carries.\<close>

definition stray_scheduler :: "string list Scheduler" where
  "stray_scheduler requests w =
     (Inr [\<lparr>res_callId = ''123'', result = ''a.txt''\<rparr>,
           \<lparr>res_callId = ''999'', result = ''stray''\<rparr>],
      w @ [''execute''])"

text \<open>Clients whose stream throws while it is read, after some content and after a tool
  call request, and a client that answers without asking for a tool call.\<close>

definition failing_client :: "string list GeminiClient" where
  "failing_client prompt prompt_id w =
     (Yield (EvContent ''partial'') (Fail (ThrownError (Error ''connection lost''))),
      w @ [''sendMessageStream''])"

definition dropping_client :: "string list GeminiClient" where
  "dropping_client prompt prompt_id w =
     (Yield (EvToolCallRequest demo_tool_request) (Fail (ThrownError (Error ''connection lost''))),
      w @ [''sendMessageStream''])"

definition answering_client :: "string list GeminiClient" where
  "answering_client prompt prompt_id w =
     (Yield (EvContent ''final answer'') (Yield (EvFinished ''STOP'') Done),
      w @ [''sendMessageStream''])"

text \<open>A configuration whose \<^verbatim>\<open>getToolRegistry()\<close> rejects with \<^verbatim>\<open>undefined\<close>.\<close>

definition rejecting_config :: "string list Config" where
  "rejecting_config =
     \<lparr>getGeminiClient = None,
      getSessionId = ''session-id'',
      getToolRegistry = Inl (ThrownValue JUndefined),
      getTargetDir = Inr ''/tmp''\<rparr>"

text \<open>A callback that always returns, and one that throws when it is given an error
  message.\<close>

definition quiet_callback :: BotMessageCallback where
  "quiet_callback log m = None"

definition strict_callback :: BotMessageCallback where
  "strict_callback log m =
     (case m of
        ErrorMsg text \<Rightarrow> Some (ThrownError (Error ''callback failed''))
      | _ \<Rightarrow> None)"

section \<open>Verified properties\<close>

subsection \<open>The results of \<open>execute\<close>, when it returns\<close>

lemma execute_request_callId:
  "execute_request core config request w = (Inr r, w') \<Longrightarrow> res_callId r = callId request"
  by (auto simp: execute_request_def split: prod.splits sum.splits)

lemma execute_loop_results:
  "execute_loop core config requests acc w = (Inr rs', w')
     \<Longrightarrow> \<exists>rs. rs' = acc @ rs \<and> map res_callId rs = map callId requests"
proof (induction requests arbitrary: acc w)
  case Nil
  then show ?case by simp
next
  case (Cons request requests)
  obtain x w1 where step: "execute_request core config request w = (x, w1)"
    by (cases "execute_request core config request w")
  from Cons.prems step obtain r where x: "x = Inr r"
    by (cases x) simp_all
  have r: "res_callId r = callId request"
    using step x execute_request_callId [of core config request w r w1] by simp
  have "execute_loop core config requests (acc @ [r]) w1 = (Inr rs', w')"
    using Cons.prems step x by simp
  from Cons.IH [OF this] obtain rs where
    "rs' = (acc @ [r]) @ rs" and "map res_callId rs = map callId requests"
    by blast
  then have "rs' = acc @ (r # rs)" and "map res_callId (r # rs) = map callId (request # requests)"
    using r by simp_all
  then show ?case by blast
qed

lemma execute_results:
  assumes "execute core config requests w = (Inr rs, w')"
  shows "length rs = length requests \<and> map res_callId rs = map callId requests"
proof -
  from execute_loop_results [of core config requests "[]" w rs w'] assms
  have ids: "map res_callId rs = map callId requests"
    by (simp add: execute_def)
  then have "length rs = length requests"
    by (metis length_map)
  with ids show ?thesis by simp
qed

lemma execute_loop_pointwise:
  assumes "execute_loop core config requests acc w = (Inr rs, w')"
    and "i < length requests"
  shows "\<exists>wi wi'. execute_request core config (requests ! i) wi = (Inr (rs ! (length acc + i)), wi')"
  using assms
proof (induction requests arbitrary: acc w i)
  case Nil
  then show ?case by simp
next
  case (Cons request requests)
  obtain x w1 where step: "execute_request core config request w = (x, w1)"
    by (cases "execute_request core config request w")
  from Cons.prems(1) step obtain r where x: "x = Inr r"
    by (cases x) simp_all
  have rest: "execute_loop core config requests (acc @ [r]) w1 = (Inr rs, w')"
    using Cons.prems(1) step x by simp
  from execute_loop_results [OF rest] obtain rs' where rs: "rs = (acc @ [r]) @ rs'"
    by blast
  show ?case
  proof (cases i)
    case 0
    have "rs ! length acc = r"
      using rs by (simp add: nth_append)
    then show ?thesis
      using 0 step x by auto
  next
    case (Suc j)
    then have "j < length requests"
      using Cons.prems(2) by simp
    from Cons.IH [OF rest this] obtain wi wi' where
      "execute_request core config (requests ! j) wi = (Inr (rs ! (length (acc @ [r]) + j)), wi')"
      by blast
    then show ?thesis
      using Suc by auto
  qed
qed

lemma execute_pointwise:
  assumes "execute core config requests w = (Inr rs, w')"
    and "i < length requests"
  shows "\<exists>wi wi'. execute_request core config (requests ! i) wi = (Inr (rs ! i), wi')"
  using execute_loop_pointwise [of core config requests "[]" w rs w' i] assms
  by (simp add: execute_def)

lemma execute_loop_append:
  "execute_loop core config (xs @ ys) acc w =
     (case execute_loop core config xs acc w of
        (Inr acc', w1) \<Rightarrow> execute_loop core config ys acc' w1
      | (Inl e, w1) \<Rightarrow> (Inl e, w1))"
proof (induction xs arbitrary: acc w)
  case Nil
  then show ?case by simp
next
  case (Cons x xs)
  then show ?case by (simp split: prod.splits sum.splits)
qed

subsection \<open>A rejection with \<^verbatim>\<open>undefined\<close> is thrown out of \<open>execute\<close>\<close>

lemma error_message_text_Inl:
  "(\<exists>err. error_message_text e = Inl err) \<longleftrightarrow> (e = ThrownValue JUndefined \<or> e = ThrownValue JNull)"
  by (induction e rule: error_message_text.induct) simp_all

lemma execute_switch_thrown:
  assumes "execute_switch core config request w = (Inl e, w')"
  shows "getToolRegistry config = Inl e \<or> getTargetDir config = Inl e
    \<or> (\<exists>command dir w0 w1. ShellExecutionService_execute core command dir w0 = (Inl e, w1))"
  using assms
  by (auto simp: execute_switch_def runShellCommand_def readFile_def writeFile_def replace_def
      readManyFiles_def split: if_splits sum.splits option.splits prod.splits jsval.splits)

text \<open>What remains of the claim C1: when no collaborator outside the inner \<^verbatim>\<open>try\<close> blocks
  throws \<^verbatim>\<open>undefined\<close> or \<^verbatim>\<open>null\<close>, \<open>execute\<close> returns one result per request, in
  order, whatever else fails.\<close>

lemma execute_request_returns:
  assumes "getToolRegistry config \<notin> {Inl (ThrownValue JUndefined), Inl (ThrownValue JNull)}"
    and "getTargetDir config \<notin> {Inl (ThrownValue JUndefined), Inl (ThrownValue JNull)}"
    and "\<forall>command dir w0. fst (ShellExecutionService_execute core command dir w0)
           \<notin> {Inl (ThrownValue JUndefined), Inl (ThrownValue JNull)}"
  shows "\<exists>r w'. execute_request core config request w = (Inr r, w')"
proof -
  obtain x w' where sw: "execute_switch core config request w = (x, w')"
    by (cases "execute_switch core config request w")
  show ?thesis
  proof (cases x)
    case (Inr resultText)
    then show ?thesis using sw by (simp add: execute_request_def)
  next
    case (Inl e)
    from execute_switch_thrown [of core config request w e w'] sw Inl
    have "getToolRegistry config = Inl e \<or> getTargetDir config = Inl e
      \<or> (\<exists>command dir w0 w1. ShellExecutionService_execute core command dir w0 = (Inl e, w1))"
      by simp
    then have "e \<noteq> ThrownValue JUndefined \<and> e \<noteq> ThrownValue JNull"
      using assms by (metis fst_conv insertCI)
    then obtain messageText where "error_message_text e = Inr messageText"
      using error_message_text_Inl [of e] by (cases "error_message_text e") auto
    then show ?thesis
      using sw Inl by (simp add: execute_request_def)
  qed
qed

lemma execute_returns_without_nullish_rejection:
  assumes "getToolRegistry config \<notin> {Inl (ThrownValue JUndefined), Inl (ThrownValue JNull)}"
    and "getTargetDir config \<notin> {Inl (ThrownValue JUndefined), Inl (ThrownValue JNull)}"
    and "\<forall>command dir w0. fst (ShellExecutionService_execute core command dir w0)
           \<notin> {Inl (ThrownValue JUndefined), Inl (ThrownValue JNull)}"
  shows "\<exists>rs w'. execute core config requests w = (Inr rs, w')
      \<and> length rs = length requests \<and> map res_callId rs = map callId requests"
proof -
  have "\<exists>rs w'. execute_loop core config requests acc w = (Inr rs, w')" for acc
  proof (induction requests arbitrary: acc w)
    case Nil
    then show ?case by simp
  next
    case (Cons request requests)
    from execute_request_returns [OF assms, of request w] obtain r w1 where
      "execute_request core config request w = (Inr r, w1)"
      by blast
    then show ?case
      using Cons [of "acc @ [r]" w1] by simp
  qed
  then obtain rs w' where run: "execute core config requests w = (Inr rs, w')"
    unfolding execute_def by blast
  show ?thesis
    using run execute_results [OF run] by simp
qed

text \<open>
  C1, at a failing input. The requests are a \<^verbatim>\<open>read_file\<close> and then an unregistered
  \<^verbatim>\<open>web_search\<close>; \<^verbatim>\<open>config.getToolRegistry()\<close> rejects with \<^verbatim>\<open>undefined\<close>. The
  rejection reaches the \<^verbatim>\<open>catch\<close> clause of \<open>execute\<close>, where reading
  \<^verbatim>\<open>error.message\<close> throws a \<^verbatim>\<open>TypeError\<close>: \<open>execute\<close> throws it and returns no
  result, for either request.
\<close>

theorem execute_throws_on_undefined_rejection:
  "execute demo_core rejecting_config
       [demo_request ''1'' ''read_file'' [(''path'', JStr ''a.txt'')],
        demo_request ''2'' ''web_search'' []] []
     = (Inl (ThrownError (Error (''Cannot read properties of undefined (reading '' @ apostrophe
                                   @ ''message'' @ apostrophe @ '')''))), [])"
  by (simp add: execute_def execute_request_def execute_switch_def readFile_def
      rejecting_config_def demo_request_def)

lemma demo_execute:
  "execute demo_core demo_config demo_requests [] =
     (Inr [\<lparr>res_callId = ''1'', result = ''a.txt''\<rparr>,
           \<lparr>res_callId = ''2'', result = ''[ERROR] Error writing file: path is required''\<rparr>,
           \<lparr>res_callId = ''3'', result = ''[ERROR] Error reading files: ENOENT''\<rparr>,
           \<lparr>res_callId = ''4'', result = ''[ERROR] Tool '' @ apostrophe @ ''run_shell_command''
              @ apostrophe @ '' failed: spawn failed''\<rparr>,
           \<lparr>res_callId = ''5'', result = ''file content''\<rparr>],
      [''shell'', ''read_many_files'', ''shell'', ''read_file''])"
  by (simp add: execute_def demo_requests_def demo_request_def execute_request_def
      execute_switch_def runShellCommand_def writeFile_def readManyFiles_def readFile_def
      demo_config_def demo_core_def demo_registry_def js_get_def executionResult_text_def
      js_trim_def js_whitespace_def newline_def apostrophe_def llmContent_toString_def
      demo_getErrorMessage_def)

subsection \<open>Classification of a command's outcome\<close>

lemma show_int_2: "show_int 2 = ''2''"
  by (simp add: show_int_def show_nat.simps [of 2])

lemma runShellCommand_executed:
  assumes "js_truthy command"
    and "getTargetDir config = Inr dir"
    and "ShellExecutionService_execute core command dir w = (Inr r, w')"
  shows "runShellCommand core config command w = (Inr (executionResult_text core r), w')"
  using assms by (simp add: runShellCommand_def)

text \<open>
  C3. When the command is given and the shell service resolves to an execution result,
  \<open>runShellCommand\<close> returns a text chosen in this order of priority: the error, then the
  abort, then the signal, then a non-zero exit code, then binary output, then the trimmed
  output, or a fixed placeholder when the trimmed output is empty. With no error, abort or
  signal: exit code 0 and the non-binary output "hello world" followed by a newline give
  exactly "hello world"; exit code 2 gives a text that starts with
  "[ERROR] Command exited with code 2."; exit code 0 and binary raw output give the fixed
  placeholder, whatever the raw bytes and the output are.
\<close>

theorem runShellCommand_priority_order:
  assumes "js_truthy command"
    and "getTargetDir config = Inr dir"
    and "ShellExecutionService_execute core command dir w = (Inr r, w')"
  shows "\<exists>text. runShellCommand core config command w = (Inr text, w')
    \<and> (\<forall>e. error r = Some e \<longrightarrow> text = ''[ERROR] '' @ message e @ newline @ outputText r)
    \<and> (error r = None \<and> aborted r
          \<longrightarrow> text = ''[CANCELLED] Command was cancelled.'' @ newline @ outputText r)
    \<and> (error r = None \<and> \<not> aborted r \<and> js_truthy (signal r)
          \<longrightarrow> text = ''[ERROR] Command terminated by signal: '' @ js_String (signal r) @ ''.''
                @ newline @ outputText r)
    \<and> (error r = None \<and> \<not> aborted r \<and> \<not> js_truthy (signal r) \<and> exitCode r \<noteq> 0
          \<longrightarrow> text = ''[ERROR] Command exited with code '' @ show_int (exitCode r) @ ''.''
                @ newline @ outputText r)
    \<and> (error r = None \<and> \<not> aborted r \<and> \<not> js_truthy (signal r) \<and> exitCode r = 0
          \<and> isBinary core (rawOutput r)
          \<longrightarrow> text = ''[Command produced binary output, which is not shown.]'')
    \<and> (error r = None \<and> \<not> aborted r \<and> \<not> js_truthy (signal r) \<and> exitCode r = 0
          \<and> \<not> isBinary core (rawOutput r)
          \<longrightarrow> text = (if js_trim (outputText r) = [] then ''(Command produced no output)''
                      else js_trim (outputText r)))
    \<and> (error r = None \<and> \<not> aborted r \<and> \<not> js_truthy (signal r) \<and> exitCode r = 0
          \<and> \<not> isBinary core (rawOutput r) \<and> outputText r = ''hello world'' @ newline
          \<longrightarrow> text = ''hello world'')
    \<and> (error r = None \<and> \<not> aborted r \<and> \<not> js_truthy (signal r) \<and> exitCode r = 2
          \<longrightarrow> prefix ''[ERROR] Command exited with code 2.'' text)"
proof -
  have run: "runShellCommand core config command w = (Inr (executionResult_text core r), w')"
    using assms by (rule runShellCommand_executed)
  have c1: "\<forall>e. error r = Some e
          \<longrightarrow> executionResult_text core r = ''[ERROR] '' @ message e @ newline @ outputText r"
    by (simp add: executionResult_text_def)
  have c2: "error r = None \<and> aborted r
          \<longrightarrow> executionResult_text core r
              = ''[CANCELLED] Command was cancelled.'' @ newline @ outputText r"
    by (simp add: executionResult_text_def)
  have c3: "error r = None \<and> \<not> aborted r \<and> js_truthy (signal r)
          \<longrightarrow> executionResult_text core r
              = ''[ERROR] Command terminated by signal: '' @ js_String (signal r) @ ''.''
                @ newline @ outputText r"
    by (simp add: executionResult_text_def)
  have c4: "error r = None \<and> \<not> aborted r \<and> \<not> js_truthy (signal r) \<and> exitCode r \<noteq> 0
          \<longrightarrow> executionResult_text core r
              = ''[ERROR] Command exited with code '' @ show_int (exitCode r) @ ''.''
                @ newline @ outputText r"
    by (simp add: executionResult_text_def)
  have c5: "error r = None \<and> \<not> aborted r \<and> \<not> js_truthy (signal r) \<and> exitCode r = 0
          \<and> isBinary core (rawOutput r)
          \<longrightarrow> executionResult_text core r
              = ''[Command produced binary output, which is not shown.]''"
    by (simp add: executionResult_text_def)
  have c6: "error r = None \<and> \<not> aborted r \<and> \<not> js_truthy (signal r) \<and> exitCode r = 0
          \<and> \<not> isBinary core (rawOutput r)
          \<longrightarrow> executionResult_text core r
              = (if js_trim (outputText r) = [] then ''(Command produced no output)''
                 else js_trim (outputText r))"
    by (simp add: executionResult_text_def)
  have c7: "error r = None \<and> \<not> aborted r \<and> \<not> js_truthy (signal r) \<and> exitCode r = 0
          \<and> \<not> isBinary core (rawOutput r) \<and> outputText r = ''hello world'' @ newline
          \<longrightarrow> executionResult_text core r = ''hello world''"
    by (simp add: executionResult_text_def js_trim_def js_whitespace_def newline_def)
  have c8: "error r = None \<and> \<not> aborted r \<and> \<not> js_truthy (signal r) \<and> exitCode r = 2
          \<longrightarrow> prefix ''[ERROR] Command exited with code 2.'' (executionResult_text core r)"
    by (simp add: executionResult_text_def show_int_2)
  show ?thesis
    by (rule exI [of _ "executionResult_text core r"])
      (intro conjI run c1 c2 c3 c4 c5 c6 c7 c8)
qed


theorem runShellCommand_priority_order_witness:
  "runShellCommand (shell_core (shell_result (''hello world'' @ newline) [104, 105, 10] 0))
       demo_config (JStr ''echo hello world'') []
     = (Inr ''hello world'', [''shell''])
   \<and> runShellCommand (shell_core (shell_result ''PNG'' [137, 80, 78, 71, 0, 1] 0))
       demo_config (JStr ''cat a.png'') []
     = (Inr ''[Command produced binary output, which is not shown.]'', [''shell''])"
proof -
  let ?hello = "shell_result (''hello world'' @ newline) [104, 105, 10] 0"
  let ?binary = "shell_result ''PNG'' [137, 80, 78, 71, 0, 1] 0"
  have cmd1: "js_truthy (JStr ''echo hello world'')" and cmd2: "js_truthy (JStr ''cat a.png'')"
    by simp_all
  have dir: "getTargetDir demo_config = Inr ''/tmp''"
    by (simp add: demo_config_def)
  have shell1: "ShellExecutionService_execute (shell_core ?hello) (JStr ''echo hello world'')
        ''/tmp'' [] = (Inr ?hello, [''shell''])"
    by (simp add: shell_core_def)
  have shell2: "ShellExecutionService_execute (shell_core ?binary) (JStr ''cat a.png'')
        ''/tmp'' [] = (Inr ?binary, [''shell''])"
    by (simp add: shell_core_def)
  have hello: "error ?hello = None \<and> \<not> aborted ?hello \<and> \<not> js_truthy (signal ?hello)
      \<and> exitCode ?hello = 0 \<and> \<not> isBinary (shell_core ?hello) (rawOutput ?hello)
      \<and> outputText ?hello = ''hello world'' @ newline"
    by (simp add: shell_result_def shell_core_def)
  have binary: "error ?binary = None \<and> \<not> aborted ?binary \<and> \<not> js_truthy (signal ?binary)
      \<and> exitCode ?binary = 0 \<and> isBinary (shell_core ?binary) (rawOutput ?binary)"
    by (simp add: shell_result_def shell_core_def)
  from runShellCommand_priority_order [OF cmd2 dir shell2]
  obtain t2 where run2: "runShellCommand (shell_core ?binary) demo_config (JStr ''cat a.png'') []
        = (Inr t2, [''shell''])"
    and c2: "error ?binary = None \<and> \<not> aborted ?binary \<and> \<not> js_truthy (signal ?binary)
      \<and> exitCode ?binary = 0 \<and> isBinary (shell_core ?binary) (rawOutput ?binary)
      \<longrightarrow> t2 = ''[Command produced binary output, which is not shown.]''"
    by (elim exE conjE) (rule that, simp)
  from runShellCommand_priority_order [OF cmd1 dir shell1]
  obtain t1 where run1: "runShellCommand (shell_core ?hello) demo_config (JStr ''echo hello world'') []
        = (Inr t1, [''shell''])"
    and c1: "error ?hello = None \<and> \<not> aborted ?hello \<and> \<not> js_truthy (signal ?hello)
      \<and> exitCode ?hello = 0 \<and> \<not> isBinary (shell_core ?hello) (rawOutput ?hello)
      \<and> outputText ?hello = ''hello world'' @ newline
      \<longrightarrow> t1 = ''hello world''"
    by (elim exE conjE) (rule that, simp)
  have "t1 = ''hello world''"
    using c1 hello by (rule mp)
  moreover have "t2 = ''[Command produced binary output, which is not shown.]''"
    using c2 binary by (rule mp)
  ultimately show ?thesis
    using run1 run2 by simp
qed

subsection \<open>A shell command that is not given\<close>

lemma runShellCommand_no_command:
  assumes "map_of a ''command'' = None \<or> map_of a ''command'' = Some (JStr [])"
  shows "runShellCommand core config (js_get a ''command'') w
           = (Inr ''[ERROR] No command provided to run_shell_command.'', w)"
  using assms by (auto simp: runShellCommand_def js_get_def)

text \<open>
  C9. For a \<^verbatim>\<open>run_shell_command\<close> request whose \<^verbatim>\<open>command\<close> argument is absent or is
  the empty string, at any position of the list given to \<open>execute\<close>, the result text is
  "[ERROR] No command provided to run_shell_command.", and the shell execution service
  is not invoked: whatever the service and the configuration are, the request leaves the
  world as it found it, and the requests after it run from the world the requests before
  it left.
\<close>

theorem execute_no_command:
  assumes "name request = ''run_shell_command''"
    and "map_of (args request) ''command'' = None
         \<or> map_of (args request) ''command'' = Some (JStr [])"
    and "execute core config before w = (Inr rs1, w1)"
  shows "execute_request core config request w1
           = (Inr \<lparr>res_callId = callId request,
                   result = ''[ERROR] No command provided to run_shell_command.''\<rparr>, w1)
    \<and> execute core config (before @ request # after) w
           = execute_loop core config after
               (rs1 @ [\<lparr>res_callId = callId request,
                        result = ''[ERROR] No command provided to run_shell_command.''\<rparr>]) w1"
proof -
  have one: "execute_request core config request w1
           = (Inr \<lparr>res_callId = callId request,
                   result = ''[ERROR] No command provided to run_shell_command.''\<rparr>, w1)"
    using assms(1) runShellCommand_no_command [OF assms(2), of core config w1]
    by (simp add: execute_request_def execute_switch_def)
  have "execute core config (before @ request # after) w
          = execute_loop core config (request # after) rs1 w1"
    using assms(3) by (simp add: execute_def execute_loop_append)
  with one show ?thesis by simp
qed

theorem execute_no_command_witness:
  "execute demo_core demo_config
     [demo_request ''1'' ''run_shell_command'' [(''command'', JStr ''ls'')],
      demo_request ''2'' ''run_shell_command'' [],
      demo_request ''3'' ''run_shell_command'' [(''command'', JStr [])]] []
   = (Inr [\<lparr>res_callId = ''1'', result = ''a.txt''\<rparr>,
           \<lparr>res_callId = ''2'', result = ''[ERROR] No command provided to run_shell_command.''\<rparr>,
           \<lparr>res_callId = ''3'', result = ''[ERROR] No command provided to run_shell_command.''\<rparr>],
      [''shell''])"
proof -
  let ?r1 = "demo_request ''1'' ''run_shell_command'' [(''command'', JStr ''ls'')]"
  let ?r2 = "demo_request ''2'' ''run_shell_command'' []"
  let ?r3 = "demo_request ''3'' ''run_shell_command'' [(''command'', JStr [])]"
  have before: "execute demo_core demo_config [?r1] []
      = (Inr [\<lparr>res_callId = ''1'', result = ''a.txt''\<rparr>], [''shell''])"
    by (simp add: execute_def demo_request_def execute_request_def execute_switch_def
        runShellCommand_def demo_config_def demo_core_def js_get_def executionResult_text_def
        js_trim_def js_whitespace_def newline_def)
  have nm: "name ?r2 = ''run_shell_command''"
    by (simp add: demo_request_def)
  have absent: "map_of (args ?r2) ''command'' = None
      \<or> map_of (args ?r2) ''command'' = Some (JStr [])"
    by (simp add: demo_request_def)
  have "execute demo_core demo_config ([?r1] @ ?r2 # [?r3]) []
      = execute_loop demo_core demo_config [?r3]
          ([\<lparr>res_callId = ''1'', result = ''a.txt''\<rparr>]
             @ [\<lparr>res_callId = callId ?r2,
                 result = ''[ERROR] No command provided to run_shell_command.''\<rparr>]) [''shell'']"
    using execute_no_command [OF nm absent before, of "[?r3]"] by (rule conjunct2)
  also have "\<dots> = (Inr [\<lparr>res_callId = ''1'', result = ''a.txt''\<rparr>,
           \<lparr>res_callId = ''2'', result = ''[ERROR] No command provided to run_shell_command.''\<rparr>,
           \<lparr>res_callId = ''3'', result = ''[ERROR] No command provided to run_shell_command.''\<rparr>],
      [''shell''])"
    by (simp add: demo_request_def execute_request_def execute_switch_def
        runShellCommand_def js_get_def)
  finally show ?thesis by simp
qed

subsection \<open>An operation that is not registered\<close>

lemma execute_request_not_implemented:
  assumes "name request \<notin> set registry_tool_names"
    and "name request \<noteq> ''run_shell_command''"
  shows "execute_request core config request w
           = (Inr \<lparr>res_callId = callId request,
                   result = ''[ERROR] Tool '' @ apostrophe @ name request @ apostrophe
                              @ '' is not implemented.''\<rparr>, w)"
  using assms by (simp add: execute_request_def execute_switch_def registry_tool_names_def)

lemma execute_request_tool_not_found:
  assumes "name request \<in> set registry_tool_names"
    and "getToolRegistry config = Inr toolRegistry"
    and "toolRegistry (name request) = None"
  shows "execute_request core config request w
           = (Inr \<lparr>res_callId = callId request,
                   result = ''[ERROR] '' @ name request @ '' tool not found.''\<rparr>, w)"
proof -
  consider "name request = ''read_many_files''" | "name request = ''read_file''"
    | "name request = ''write_file''" | "name request = ''replace''"
    using assms(1) by (auto simp: registry_tool_names_def)
  then show ?thesis
  proof cases
    case 1
    then show ?thesis
      using assms(2,3) by (simp add: execute_request_def execute_switch_def readManyFiles_def)
  next
    case 2
    then show ?thesis
      using assms(2,3) by (simp add: execute_request_def execute_switch_def readFile_def)
  next
    case 3
    then show ?thesis
      using assms(2,3) by (simp add: execute_request_def execute_switch_def writeFile_def)
  next
    case 4
    then show ?thesis
      using assms(2,3) by (simp add: execute_request_def execute_switch_def replace_def)
  qed
qed

lemma execute_request_unregistered:
  assumes "unregistered config (name request)"
  shows "execute_request core config request w
           = (Inr \<lparr>res_callId = callId request,
                   result = (if name request \<in> set registry_tool_names
                             then ''[ERROR] '' @ name request @ '' tool not found.''
                             else ''[ERROR] Tool '' @ apostrophe @ name request @ apostrophe
                                    @ '' is not implemented.'')\<rparr>, w)"
proof (cases "name request \<in> set registry_tool_names")
  case True
  with assms obtain toolRegistry where "getToolRegistry config = Inr toolRegistry"
    and "toolRegistry (name request) = None"
    by (auto simp: unregistered_def split: sum.splits)
  with True show ?thesis
    by (simp add: execute_request_tool_not_found)
next
  case False
  with assms have "name request \<noteq> ''run_shell_command''"
    by (simp add: unregistered_def)
  with False show ?thesis
    by (simp add: execute_request_not_implemented)
qed

text \<open>
  C7. For a request whose name resolves to no registered operation, the body of the loop
  of \<open>execute\<close> does not throw: in every world it produces a result with the request's
  callId and a text that begins with "[ERROR]" and contains the operation name, namely
  "[ERROR] Tool 'NAME' is not implemented." for a name outside the \<^verbatim>\<open>switch\<close> and
  "[ERROR] NAME tool not found." for a name the registry lacks, and it leaves the world as
  it found it. So, at any position of a list given to \<open>execute\<close>: when the
  requests before it have produced their results, this result is added and the requests
  after it run; and whenever \<open>execute\<close> returns, its result at that position is this one.
\<close>

theorem execute_unregistered_operation:
  assumes "unregistered config (name request)"
  shows "\<exists>text.
      text = (if name request \<in> set registry_tool_names
              then ''[ERROR] '' @ name request @ '' tool not found.''
              else ''[ERROR] Tool '' @ apostrophe @ name request @ apostrophe
                     @ '' is not implemented.'')
    \<and> execute_request core config request w
        = (Inr \<lparr>res_callId = callId request, result = text\<rparr>, w)
    \<and> prefix ''[ERROR]'' text
    \<and> sublist (name request) text
    \<and> (\<forall>before after w0 rs1.
          execute core config before w0 = (Inr rs1, w)
          \<longrightarrow> execute core config (before @ request # after) w0
              = execute_loop core config after
                  (rs1 @ [\<lparr>res_callId = callId request, result = text\<rparr>]) w)
    \<and> (\<forall>requests w0 rs w' i.
          execute core config requests w0 = (Inr rs, w') \<and> i < length requests
          \<and> requests ! i = request
          \<longrightarrow> rs ! i = \<lparr>res_callId = callId request, result = text\<rparr>)"
proof -
  let ?text = "if name request \<in> set registry_tool_names
               then ''[ERROR] '' @ name request @ '' tool not found.''
               else ''[ERROR] Tool '' @ apostrophe @ name request @ apostrophe
                      @ '' is not implemented.''"
  let ?res = "\<lparr>res_callId = callId request, result = ?text\<rparr>"
  have one: "execute_request core config request v = (Inr ?res, v)" for v
    using execute_request_unregistered [OF assms] by simp
  have pre: "prefix ''[ERROR]'' ?text"
    by simp
  have "sublist (name request) (''[ERROR] '' @ name request @ '' tool not found.'')"
    by (rule sublist_appendI)
  moreover have "sublist (name request) ((''[ERROR] Tool '' @ apostrophe) @ name request
      @ (apostrophe @ '' is not implemented.''))"
    by (rule sublist_appendI)
  ultimately have sub: "sublist (name request) ?text"
    by simp
  have pos: "\<forall>before after w0 rs1.
          execute core config before w0 = (Inr rs1, w)
          \<longrightarrow> execute core config (before @ request # after) w0
              = execute_loop core config after (rs1 @ [?res]) w"
    using one [of w] by (simp add: execute_def execute_loop_append)
  have at: "\<forall>requests w0 rs w' i.
          execute core config requests w0 = (Inr rs, w') \<and> i < length requests
          \<and> requests ! i = request
          \<longrightarrow> rs ! i = ?res"
  proof (intro allI impI, elim conjE)
    fix requests w0 rs w' i
    assume run: "execute core config requests w0 = (Inr rs, w')"
      and i: "i < length requests" and req: "requests ! i = request"
    from execute_pointwise [OF run i] req obtain wi wi' where
      "execute_request core config request wi = (Inr (rs ! i), wi')"
      by auto
    then show "rs ! i = ?res"
      using one [of wi] by simp
  qed
  show ?thesis
    by (rule exI [of _ ?text]) (intro conjI refl one pre sub pos at)
qed

theorem execute_unregistered_operation_witness:
  "execute_request demo_core empty_registry_config (demo_request ''1'' ''web_search'' []) []
     = (Inr \<lparr>res_callId = ''1'',
             result = ''[ERROR] Tool '' @ apostrophe @ ''web_search'' @ apostrophe
                        @ '' is not implemented.''\<rparr>, [])
   \<and> execute_request demo_core empty_registry_config (demo_request ''2'' ''read_file'' []) []
     = (Inr \<lparr>res_callId = ''2'', result = ''[ERROR] read_file tool not found.''\<rparr>, [])"
proof -
  let ?search = "demo_request ''1'' ''web_search'' []"
  let ?read = "demo_request ''2'' ''read_file'' []"
  have un1: "unregistered empty_registry_config (name ?search)"
    by (simp add: unregistered_def registry_tool_names_def demo_request_def)
  have un2: "unregistered empty_registry_config (name ?read)"
    by (simp add: unregistered_def registry_tool_names_def demo_request_def
        empty_registry_config_def)
  from execute_unregistered_operation [OF un1, of demo_core "[]"] obtain t1 where
    t1: "t1 = (if name ?search \<in> set registry_tool_names
              then ''[ERROR] '' @ name ?search @ '' tool not found.''
              else ''[ERROR] Tool '' @ apostrophe @ name ?search @ apostrophe
                     @ '' is not implemented.'')"
    and r1: "execute_request demo_core empty_registry_config ?search []
        = (Inr \<lparr>res_callId = callId ?search, result = t1\<rparr>, [])"
    by (elim exE conjE) (rule that)
  from execute_unregistered_operation [OF un2, of demo_core "[]"] obtain t2 where
    t2: "t2 = (if name ?read \<in> set registry_tool_names
              then ''[ERROR] '' @ name ?read @ '' tool not found.''
              else ''[ERROR] Tool '' @ apostrophe @ name ?read @ apostrophe
                     @ '' is not implemented.'')"
    and r2: "execute_request demo_core empty_registry_config ?read []
        = (Inr \<lparr>res_callId = callId ?read, result = t2\<rparr>, [])"
    by (elim exE conjE) (rule that)
  have "t1 = ''[ERROR] Tool '' @ apostrophe @ ''web_search'' @ apostrophe @ '' is not implemented.''"
    using t1 by (simp add: registry_tool_names_def demo_request_def)
  moreover have "t2 = ''[ERROR] read_file tool not found.''"
    using t2 by (simp add: registry_tool_names_def demo_request_def)
  ultimately show ?thesis
    using r1 r2 by (simp add: demo_request_def)
qed

subsection \<open>Normalisation of a tool's content\<close>

lemma llmContent_toString_cases:
  "llmContent_toString c =
     (case c of JArr parts \<Rightarrow> array_join '','' parts | _ \<Rightarrow> spec_normalize c)"
  by (cases c) (simp_all add: llmContent_toString_def spec_normalize_def array_join_def)

lemma readManyFiles_content:
  assumes "getToolRegistry config = Inr toolRegistry"
    and "toolRegistry ''read_many_files'' = Some tool"
    and "tool a = Inr invocation"
    and "invocation w = (Inr c, w')"
  shows "readManyFiles core config a w = (Inr (spec_normalize c), w')"
  using assms
  by (cases c) (simp_all add: readManyFiles_def llmContent_toString_def spec_normalize_def)

lemma readFile_content:
  assumes "getToolRegistry config = Inr toolRegistry"
    and "toolRegistry ''read_file'' = Some tool"
    and "tool a = Inr invocation"
    and "invocation w = (Inr c, w')"
  shows "readFile core config a w = (Inr (llmContent_toString c), w')"
  using assms by (simp add: readFile_def)

lemma writeFile_content:
  assumes "getToolRegistry config = Inr toolRegistry"
    and "toolRegistry ''write_file'' = Some tool"
    and "tool a = Inr invocation"
    and "invocation w = (Inr c, w')"
  shows "writeFile core config a w = (Inr (llmContent_toString c), w')"
  using assms by (simp add: writeFile_def)

lemma replace_content:
  assumes "getToolRegistry config = Inr toolRegistry"
    and "toolRegistry ''replace'' = Some tool"
    and "tool a = Inr invocation"
    and "invocation w = (Inr c, w')"
  shows "replace core config a w = (Inr (llmContent_toString c), w')"
  using assms by (simp add: replace_def)

text \<open>What each of the four operations makes of the content of a successful invocation:
  only \<^verbatim>\<open>read_many_files\<close> joins a sequence of parts with newlines.\<close>

lemma execute_request_content_text:
  assumes "name request \<in> set registry_tool_names"
    and "getToolRegistry config = Inr toolRegistry"
    and "toolRegistry (name request) = Some tool"
    and "tool (args request) = Inr invocation"
    and "invocation w = (Inr llmContent, w')"
  shows "execute_request core config request w
           = (Inr \<lparr>res_callId = callId request,
               result =
                 (case llmContent of
                    JArr parts \<Rightarrow>
                      array_join (if name request = ''read_many_files'' then newline else '','')
                        parts
                  | JUndefined \<Rightarrow> []
                  | JNull \<Rightarrow> []
                  | _ \<Rightarrow> js_String llmContent)\<rparr>, w')"
proof -
  consider "name request = ''read_many_files''" | "name request = ''read_file''"
    | "name request = ''write_file''" | "name request = ''replace''"
    using assms(1) by (auto simp: registry_tool_names_def)
  then show ?thesis
  proof cases
    case 1
    then have "execute_switch core config request w = (Inr (spec_normalize llmContent), w')"
      using readManyFiles_content [of config toolRegistry tool "args request" invocation w llmContent w' core]
        assms(2-5)
      by (simp add: execute_switch_def)
    with 1 show ?thesis
      by (cases llmContent) (simp_all add: execute_request_def spec_normalize_def)
  next
    case 2
    then have "execute_switch core config request w = (Inr (llmContent_toString llmContent), w')"
      using readFile_content [of config toolRegistry tool "args request" invocation w llmContent w' core]
        assms(2-5)
      by (simp add: execute_switch_def)
    with 2 show ?thesis
      by (cases llmContent)
        (simp_all add: execute_request_def llmContent_toString_cases spec_normalize_def)
  next
    case 3
    then have "execute_switch core config request w = (Inr (llmContent_toString llmContent), w')"
      using writeFile_content [of config toolRegistry tool "args request" invocation w llmContent w' core]
        assms(2-5)
      by (simp add: execute_switch_def)
    with 3 show ?thesis
      by (cases llmContent)
        (simp_all add: execute_request_def llmContent_toString_cases spec_normalize_def)
  next
    case 4
    then have "execute_switch core config request w = (Inr (llmContent_toString llmContent), w')"
      using replace_content [of config toolRegistry tool "args request" invocation w llmContent w' core]
        assms(2-5)
      by (simp add: execute_switch_def)
    with 4 show ?thesis
      by (cases llmContent)
        (simp_all add: execute_request_def llmContent_toString_cases spec_normalize_def)
  qed
qed

text \<open>
  C6, at a failing input. A \<^verbatim>\<open>read_file\<close> request whose tool resolves, builds and
  executes successfully, with the sequence "a", "b" as content: the result text is "a,b",
  the parts joined with commas, where the normalisation of the specification, which
  \<^verbatim>\<open>read_many_files\<close> applies, joins them with a newline.
\<close>

theorem read_file_joins_sequence_with_commas:
  "execute demo_core (content_config (JArr [JStr ''a'', JStr ''b'']))
       [demo_request ''1'' ''read_file'' [(''path'', JStr ''x'')]] []
     = (Inr [\<lparr>res_callId = ''1'', result = ''a,b''\<rparr>], [''read_file''])
   \<and> execute demo_core (content_config (JArr [JStr ''a'', JStr ''b'']))
       [demo_request ''2'' ''read_many_files'' [(''paths'', JArr [JStr ''x''])]] []
     = (Inr [\<lparr>res_callId = ''2'', result = ''a'' @ newline @ ''b''\<rparr>], [''read_many_files''])
   \<and> spec_normalize (JArr [JStr ''a'', JStr ''b'']) = ''a'' @ newline @ ''b''
   \<and> ''a,b'' \<noteq> ''a'' @ newline @ ''b''"
  by (simp add: execute_def demo_request_def execute_request_def execute_switch_def
      readFile_def readManyFiles_def content_config_def llmContent_toString_def
      spec_normalize_def array_join_def newline_def)

subsection \<open>Handing messages to the callback\<close>

lemma deliver_append:
  "deliver callback log (xs @ ys) =
     (case deliver callback log xs of
        (Some e, log1) \<Rightarrow> (Some e, log1)
      | (None, log1) \<Rightarrow> deliver callback log1 ys)"
  by (induction xs arbitrary: log) (simp_all split: option.split)

lemma deliver_returns:
  "deliver callback log xs = (None, log1) \<Longrightarrow> log1 = log @ xs"
proof (induction xs arbitrary: log)
  case Nil
  then show ?case by simp
next
  case (Cons m ms)
  from Cons.prems have "callback log m = None"
    by (cases "callback log m") simp_all
  with Cons.prems have "deliver callback (log @ [m]) ms = (None, log1)"
    by simp
  from Cons.IH [OF this] show ?case by simp
qed

lemma deliver_log:
  "\<exists>n. snd (deliver callback log xs) = log @ take n xs"
proof (induction xs arbitrary: log)
  case Nil
  then show ?case by simp
next
  case (Cons m ms)
  show ?case
  proof (cases "callback log m")
    case None
    from Cons [of "log @ [m]"] obtain n where
      "snd (deliver callback (log @ [m]) ms) = (log @ [m]) @ take n ms"
      by blast
    then have "snd (deliver callback log (m # ms)) = log @ take (Suc n) (m # ms)"
      using None by simp
    then show ?thesis by blast
  next
    case (Some e)
    then have "snd (deliver callback log (m # ms)) = log @ take (Suc 0) (m # ms)"
      by simp
    then show ?thesis by blast
  qed
qed

lemma deliver_quiet:
  "(\<forall>l m. callback l m = None) \<Longrightarrow> deliver callback log xs = (None, log @ xs)"
  by (induction xs arbitrary: log) simp_all

subsection \<open>The stream classifier\<close>

lemma stream_messages_simps [simp]:
  "stream_messages core prompt_id Done = []"
  "stream_messages core prompt_id (Fail e) = []"
  "stream_messages core prompt_id (Yield event rest)
     = event_messages core prompt_id event @ stream_messages core prompt_id rest"
  by (simp_all add: stream_messages_def)

lemma stream_requests_simps [simp]:
  "stream_requests Done = []"
  "stream_requests (Fail e) = []"
  "stream_requests (Yield event rest) = event_requests event @ stream_requests rest"
  by (simp_all add: stream_requests_def)

text \<open>The classifier hands the messages of the events to the callback in the order of the
  events, until a call throws; if none does, it throws what the stream throws, or returns
  the requests of the events once the stream has ended.\<close>

lemma processStream_loop_classifies:
  "processStream_loop core callback s prompt_id requests log =
     (case deliver callback log (stream_messages core prompt_id s) of
        (Some e, log1) \<Rightarrow> (Inl e, log1)
      | (None, log1) \<Rightarrow>
          (case stream_failure s of
             None \<Rightarrow> (Inr (requests @ stream_requests s), log1)
           | Some e \<Rightarrow> (Inl e, log1)))"
  by (induction core callback s prompt_id requests log rule: processStream_loop.induct)
    (simp_all add: object_toString_def split: option.split prod.split)

lemma processStream_classifies:
  "processStream core s callback log prompt_id =
     (case deliver callback log (stream_messages core prompt_id s) of
        (Some e, log1) \<Rightarrow> (Inl e, log1)
      | (None, log1) \<Rightarrow>
          (case stream_failure s of
             None \<Rightarrow> (Inr (stream_requests s), log1)
           | Some e \<Rightarrow> (Inl e, log1)))"
  by (simp add: processStream_def processStream_loop_classifies
      split: prod.split option.split)

text \<open>
  C4, at an event outside the known set. Whatever its tag is, the classifier calls the
  callback with the error message "Unknown event type: [object Object]", and returns if
  that call does: the template literal is given the event object, not its tag, so the
  message is the same for every tag and does not name it. For the tag "citation" the
  message does not contain the tag.
\<close>

theorem processStream_unknown_event_tag:
  "processStream core (Yield (EvUnknown tag) Done) callback [] prompt_id
     = ((case callback [] (ErrorMsg ''Unknown event type: [object Object]'') of
           None \<Rightarrow> Inr []
         | Some e \<Rightarrow> Inl e),
        [ErrorMsg ''Unknown event type: [object Object]''])
   \<and> \<not> sublist ''citation'' ''Unknown event type: [object Object]''"
proof -
  have "processStream core (Yield (EvUnknown tag) Done) callback [] prompt_id
     = ((case callback [] (ErrorMsg ''Unknown event type: [object Object]'') of
           None \<Rightarrow> Inr []
         | Some e \<Rightarrow> Inl e),
        [ErrorMsg ''Unknown event type: [object Object]''])"
    by (simp add: processStream_def object_toString_def split: option.split)
  moreover have "\<not> sublist ''citation'' ''Unknown event type: [object Object]''"
    by (simp add: sublist_code)
  ultimately show ?thesis by simp
qed

subsection \<open>One turn of the conversation loop\<close>

lemma inform_results_eq:
  "inform_results callback requests results log
     = deliver callback log (tool_result_messages requests results)"
proof (induction results arbitrary: log)
  case Nil
  then show ?case by (simp add: tool_result_messages_def)
next
  case (Cons r results)
  have "tool_result_messages requests (r # results)
      = (case originalRequest_of requests r of
           Some req \<Rightarrow> [ToolResultMsg req r] | None \<Rightarrow> [])
        @ tool_result_messages requests results"
    by (simp add: tool_result_messages_def)
  then show ?case
    using Cons by (simp split: option.split)
qed

lemma streamQuery_turn_eq:
  assumes "Math_random core w = (rnd, w1)"
    and "client currentPrompt (getSessionId config @ ''########'' @ rnd) w1 = (s, w2)"
  shows "streamQuery_turn core config client sched callback currentPrompt w log =
     (case deliver callback log
             (stream_messages core (getSessionId config @ ''########'' @ rnd) s) of
        (Some e, log1) \<Rightarrow> (TurnThrow e, w2, log1)
      | (None, log1) \<Rightarrow>
          (case stream_failure s of
             Some e \<Rightarrow> (TurnThrow e, w2, log1)
           | None \<Rightarrow>
               if stream_requests s = [] then (TurnBreak, w2, log1)
               else
                 (case sched (stream_requests s) w2 of
                    (Inl e, w3) \<Rightarrow> (TurnThrow e, w3, log1)
                  | (Inr results, w3) \<Rightarrow>
                      (case deliver callback log1
                              (tool_result_messages (stream_requests s) results) of
                         (Some e, log2) \<Rightarrow> (TurnThrow e, w3, log2)
                       | (None, log2) \<Rightarrow>
                           (TurnContinue (JArr (toolResponseParts (stream_requests s) results)),
                            w3, log2)))))"
  using assms
  by (simp add: streamQuery_turn_def processStream_classifies inform_results_eq
      split: option.split prod.split sum.split)

subsection \<open>Tool results come after their requests\<close>

lemma results_follow_requests_append:
  "results_follow_requests seen (xs @ ys)
     = (results_follow_requests seen xs \<and> results_follow_requests (seen @ xs) ys)"
proof (induction xs arbitrary: seen)
  case Nil
  then show ?case by simp
next
  case (Cons m xs)
  then show ?case by (cases m) simp_all
qed

lemma results_follow_requests_event:
  "results_follow_requests seen (event_messages core prompt_id event)"
  by (cases event) simp_all

lemma results_follow_requests_stream:
  "results_follow_requests seen (stream_messages core prompt_id s)"
  by (induction s arbitrary: seen)
    (simp_all add: results_follow_requests_append results_follow_requests_event)

lemma stream_requests_emitted:
  "req \<in> set (stream_requests s)
     \<Longrightarrow> ToolCallRequestMsg req \<in> set (stream_messages core prompt_id s)"
proof (induction s)
  case Done
  then show ?case by simp
next
  case (Yield event rest)
  then show ?case by (cases event) auto
next
  case (Fail e)
  then show ?case by simp
qed

lemma originalRequest_of_Some:
  "originalRequest_of requests r = Some req \<Longrightarrow> req \<in> set requests \<and> callId req = res_callId r"
  by (auto simp: originalRequest_of_def find_Some_iff)

lemma originalRequest_of_None:
  "originalRequest_of requests r = None \<longleftrightarrow> (\<forall>req \<in> set requests. callId req \<noteq> res_callId r)"
  by (auto simp: originalRequest_of_def find_None_iff)

lemma results_follow_requests_tool_results:
  assumes "\<forall>req \<in> set requests. ToolCallRequestMsg req \<in> set seen"
  shows "results_follow_requests seen (tool_result_messages requests results)"
  using assms
proof (induction results arbitrary: seen)
  case Nil
  then show ?case by (simp add: tool_result_messages_def)
next
  case (Cons r results)
  have rest: "tool_result_messages requests (r # results)
      = (case originalRequest_of requests r of
           Some req \<Rightarrow> [ToolResultMsg req r] | None \<Rightarrow> [])
        @ tool_result_messages requests results"
    by (simp add: tool_result_messages_def)
  show ?case
  proof (cases "originalRequest_of requests r")
    case None
    then show ?thesis
      using rest Cons by simp
  next
    case (Some req)
    then have req: "req \<in> set requests" "callId req = res_callId r"
      using originalRequest_of_Some by blast+
    have "\<forall>q \<in> set requests. ToolCallRequestMsg q \<in> set (seen @ [ToolResultMsg req r])"
      using Cons.prems by simp
    then have "results_follow_requests (seen @ [ToolResultMsg req r])
        (tool_result_messages requests results)"
      by (rule Cons.IH)
    then show ?thesis
      using rest Some req Cons.prems by simp
  qed
qed

lemma results_follow_requests_take:
  assumes "results_follow_requests seen xs"
  shows "results_follow_requests seen (take n xs)"
proof -
  have "results_follow_requests seen (take n xs @ drop n xs)"
    using assms by simp
  then show ?thesis
    unfolding results_follow_requests_append by simp
qed

lemma deliver_follows:
  assumes "results_follow_requests [] log"
    and "results_follow_requests log xs"
  shows "results_follow_requests [] (snd (deliver callback log xs))"
proof -
  from deliver_log [of callback log xs] obtain n where
    "snd (deliver callback log xs) = log @ take n xs"
    by blast
  then show ?thesis
    using assms results_follow_requests_take [of log xs n]
    by (simp add: results_follow_requests_append)
qed

lemma streamQuery_turn_follows:
  assumes "results_follow_requests [] log"
    and "streamQuery_turn core config client sched callback currentPrompt w log = (x, w', log')"
  shows "results_follow_requests [] log'"
proof -
  obtain rnd w1 where rnd: "Math_random core w = (rnd, w1)"
    by (cases "Math_random core w")
  let ?pid = "getSessionId config @ ''########'' @ rnd"
  obtain s w2 where s: "client currentPrompt ?pid w1 = (s, w2)"
    by (cases "client currentPrompt ?pid w1")
  let ?msgs = "stream_messages core ?pid s"
  obtain d log1 where d: "deliver callback log ?msgs = (d, log1)"
    by (cases "deliver callback log ?msgs")
  have log1: "results_follow_requests [] log1"
    using deliver_follows [OF assms(1) results_follow_requests_stream, of callback core ?pid s] d
    by simp
  have tools: "results_follow_requests []
      (snd (deliver callback log1 (tool_result_messages (stream_requests s) rs)))"
    if "d = None" for rs
  proof -
    have "log1 = log @ ?msgs"
      using d that deliver_returns by blast
    then have "\<forall>req \<in> set (stream_requests s). ToolCallRequestMsg req \<in> set log1"
      using stream_requests_emitted [of _ s core ?pid] by simp
    then have "results_follow_requests log1 (tool_result_messages (stream_requests s) rs)"
      by (rule results_follow_requests_tool_results)
    with log1 show ?thesis
      by (rule deliver_follows)
  qed
  have "log' = log1
      \<or> (d = None
          \<and> (\<exists>rs d2. deliver callback log1 (tool_result_messages (stream_requests s) rs)
                = (d2, log')))"
    using assms(2) d
      streamQuery_turn_eq [where client = client and currentPrompt = currentPrompt
        and config = config and sched = sched and callback = callback and log = log, OF rnd s]
    by (auto split: option.splits if_splits prod.splits sum.splits)
  with log1 tools show ?thesis by (metis snd_conv)
qed

lemma streamQuery_loop_follows:
  assumes "results_follow_requests [] log"
    and "streamQuery_loop core config client sched callback fuel currentPrompt w log = (x, w', log')"
  shows "results_follow_requests [] log'"
  using assms
proof (induction fuel arbitrary: currentPrompt w log)
  case 0
  then show ?case by simp
next
  case (Suc fuel)
  obtain t w1 log1 where turn:
    "streamQuery_turn core config client sched callback currentPrompt w log = (t, w1, log1)"
    by (cases "streamQuery_turn core config client sched callback currentPrompt w log")
  have log1: "results_follow_requests [] log1"
    using Suc.prems(1) turn by (rule streamQuery_turn_follows)
  show ?case
  proof (cases t)
    case TurnBreak
    then show ?thesis using Suc.prems(2) turn log1 by simp
  next
    case (TurnContinue nextPrompt)
    then have "streamQuery_loop core config client sched callback fuel nextPrompt w1 log1
        = (x, w', log')"
      using Suc.prems(2) turn by simp
    with log1 show ?thesis by (rule Suc.IH)
  next
    case (TurnThrow e)
    then show ?thesis using Suc.prems(2) turn log1 by simp
  qed
qed

lemma streamQuery_with_follows:
  "results_follow_requests [] (snd (snd (streamQuery_with core config sched callback fuel prompt w)))"
proof (cases "getGeminiClient config")
  case None
  then show ?thesis by (simp add: streamQuery_with_def)
next
  case (Some client)
  obtain x w' log where loop:
    "streamQuery_loop core config client sched callback fuel prompt w [] = (x, w', log)"
    by (cases "streamQuery_loop core config client sched callback fuel prompt w []")
  have "results_follow_requests [] log"
    using _ loop by (rule streamQuery_loop_follows) simp
  then show ?thesis
    using Some loop
    by (cases x)
      (simp_all add: streamQuery_with_def streamQuery_try_def streamQuery_catch_def
        results_follow_requests_append split: option.split)
qed

lemma results_follow_requests_nth:
  assumes "results_follow_requests seen log"
    and "j < length log"
    and "log ! j = ToolResultMsg req r"
  shows "ToolCallRequestMsg req \<in> set (seen @ take j log) \<and> callId req = res_callId r"
  using assms
proof (induction log arbitrary: seen j)
  case Nil
  then show ?case by simp
next
  case (Cons m ms)
  show ?case
  proof (cases j)
    case 0
    then show ?thesis using Cons.prems by simp
  next
    case (Suc k)
    have "results_follow_requests (seen @ [m]) ms"
      using Cons.prems(1) by (cases m) simp_all
    moreover have "k < length ms" "ms ! k = ToolResultMsg req r"
      using Cons.prems(2,3) Suc by simp_all
    ultimately have "ToolCallRequestMsg req \<in> set ((seen @ [m]) @ take k ms)
        \<and> callId req = res_callId r"
      by (rule Cons.IH)
    then show ?thesis using Suc by simp
  qed
qed

lemma deliver_all:
  assumes "fst (deliver callback log xs) = None"
  shows "deliver callback log xs = (None, log @ xs)"
proof -
  obtain log1 where "deliver callback log xs = (None, log1)"
    using assms by (cases "deliver callback log xs") simp
  then show ?thesis
    using deliver_returns by blast
qed

lemma deliver_append_all:
  "fst (deliver callback log (xs @ ys)) = None
     \<longleftrightarrow> fst (deliver callback log xs) = None \<and> fst (deliver callback (log @ xs) ys) = None"
proof (cases "fst (deliver callback log xs)")
  case None
  then show ?thesis
    using deliver_all [OF None] by (simp add: deliver_append)
next
  case (Some e)
  then show ?thesis
    by (cases "deliver callback log xs") (simp add: deliver_append)
qed

text \<open>
  C2. In the log of every run of the conversation loop, with any producer, any scheduler
  and any callback, and after any number of turns, a \<^verbatim>\<open>tool_result\<close> message is
  preceded by the \<^verbatim>\<open>tool_call_request\<close> message of its request, whose callId is the
  result's. In particular, in a turn whose stream yields one \<^verbatim>\<open>tool_call_request\<close> and
  then \<^verbatim>\<open>finished\<close>, whose scheduler returns one result, for that request, and whose
  callback returns, the messages emitted are exactly \<^verbatim>\<open>tool_call_request\<close>,
  \<^verbatim>\<open>finished\<close>, \<^verbatim>\<open>tool_result\<close>: the result is emitted after the stream is
  classified and the scheduler has returned.
\<close>

theorem tool_result_after_its_request:
  "(\<forall>j req r.
      j < length (snd (snd (streamQuery_with core config sched callback fuel prompt w)))
      \<and> snd (snd (streamQuery_with core config sched callback fuel prompt w)) ! j
          = ToolResultMsg req r
      \<longrightarrow> (\<exists>i<j. snd (snd (streamQuery_with core config sched callback fuel prompt w)) ! i
                    = ToolCallRequestMsg req)
          \<and> callId req = res_callId r)
   \<and> (Math_random core w = (rnd, w1)
      \<and> client prompt (getSessionId config @ ''########'' @ rnd) w1
          = (Yield (EvToolCallRequest req0) (Yield (EvFinished reason) Done), w2)
      \<and> sched [req0] w2 = (Inr [r0], w3)
      \<and> res_callId r0 = callId req0
      \<and> fst (deliver callback log
                [ToolCallRequestMsg req0,
                 Finished reason (getSessionId config @ ''########'' @ rnd),
                 ToolResultMsg req0 r0]) = None
      \<longrightarrow> streamQuery_turn core config client sched callback prompt w log
          = (TurnContinue (JArr [functionResponse_part (name req0) (result r0)]), w3,
             log @ [ToolCallRequestMsg req0,
                    Finished reason (getSessionId config @ ''########'' @ rnd),
                    ToolResultMsg req0 r0]))"
proof (intro conjI allI impI)
  fix j req r
  let ?log = "snd (snd (streamQuery_with core config sched callback fuel prompt w))"
  assume "j < length ?log \<and> ?log ! j = ToolResultMsg req r"
  then have j: "j < length ?log" and at: "?log ! j = ToolResultMsg req r"
    by simp_all
  have "results_follow_requests [] ?log"
    by (rule streamQuery_with_follows)
  from results_follow_requests_nth [OF this j at]
  have before: "ToolCallRequestMsg req \<in> set (take j ?log)" and ids: "callId req = res_callId r"
    by simp_all
  from before obtain i where "i < length (take j ?log)" "take j ?log ! i = ToolCallRequestMsg req"
    by (auto simp: in_set_conv_nth)
  then have "i < j" "?log ! i = ToolCallRequestMsg req"
    by simp_all
  then show "\<exists>i<j. ?log ! i = ToolCallRequestMsg req"
    by blast
  show "callId req = res_callId r"
    by (rule ids)
next
  let ?pid = "getSessionId config @ ''########'' @ rnd"
  let ?s = "Yield (EvToolCallRequest req0) (Yield (EvFinished reason) Done)"
  let ?m12 = "[ToolCallRequestMsg req0, Finished reason ?pid]"
  assume "Math_random core w = (rnd, w1) \<and> client prompt ?pid w1 = (?s, w2)
      \<and> sched [req0] w2 = (Inr [r0], w3) \<and> res_callId r0 = callId req0
      \<and> fst (deliver callback log
                [ToolCallRequestMsg req0, Finished reason ?pid, ToolResultMsg req0 r0]) = None"
  then have rnd: "Math_random core w = (rnd, w1)" and s: "client prompt ?pid w1 = (?s, w2)"
    and run: "sched [req0] w2 = (Inr [r0], w3)" and ids: "res_callId r0 = callId req0"
    and quiet: "fst (deliver callback log (?m12 @ [ToolResultMsg req0 r0])) = None"
    by simp_all
  have q1: "fst (deliver callback log ?m12) = None"
    and q2: "fst (deliver callback (log @ ?m12) [ToolResultMsg req0 r0]) = None"
    using quiet unfolding deliver_append_all by (rule conjunct1, rule conjunct2)
  have d1: "deliver callback log ?m12 = (None, log @ ?m12)"
    using q1 by (rule deliver_all)
  have d2: "deliver callback (log @ ?m12) [ToolResultMsg req0 r0]
        = (None, (log @ ?m12) @ [ToolResultMsg req0 r0])"
    using q2 by (rule deliver_all)
  have found: "originalRequest_of [req0] r0 = Some req0"
    using ids by (simp add: originalRequest_of_def)
  have msgs: "stream_messages core ?pid ?s = ?m12"
    by simp
  have reqs: "stream_requests ?s = [req0]"
    by simp
  have tmsgs: "tool_result_messages [req0] [r0] = [ToolResultMsg req0 r0]"
    using found by (simp add: tool_result_messages_def)
  have parts: "toolResponseParts [req0] [r0] = [functionResponse_part (name req0) (result r0)]"
    using found by (simp add: toolResponseParts_def originalRequest_name_def)
  have "streamQuery_turn core config client sched callback prompt w log
      = (TurnContinue (JArr (toolResponseParts [req0] [r0])), w3,
         (log @ ?m12) @ [ToolResultMsg req0 r0])"
    unfolding streamQuery_turn_eq [where client = client and currentPrompt = prompt
        and config = config and sched = sched and callback = callback and log = log, OF rnd s]
      msgs reqs tmsgs
    using d1 d2 run by (simp add: tmsgs del: deliver.simps)
  then show "streamQuery_turn core config client sched callback prompt w log
      = (TurnContinue (JArr [functionResponse_part (name req0) (result r0)]), w3,
         log @ [ToolCallRequestMsg req0, Finished reason ?pid, ToolResultMsg req0 r0])"
    using parts by simp
qed

lemma demo_execute_tool_request:
  "execute demo_core (client_config demo_client) [demo_tool_request] [''sendMessageStream'']
     = (Inr [\<lparr>res_callId = ''123'', result = ''a.txt''\<rparr>], [''sendMessageStream'', ''shell''])"
  by (simp add: execute_def demo_tool_request_def demo_request_def execute_request_def
      execute_switch_def runShellCommand_def client_config_def demo_core_def js_get_def
      executionResult_text_def js_trim_def js_whitespace_def newline_def)

theorem tool_result_after_its_request_witness:
  "streamQuery_turn demo_core (client_config demo_client) demo_client
       (execute demo_core (client_config demo_client)) quiet_callback (JStr ''initial prompt'') [] []
     = (TurnContinue (JArr [functionResponse_part ''run_shell_command'' ''a.txt'']),
        [''sendMessageStream'', ''shell''],
        [ToolCallRequestMsg demo_tool_request,
         Finished ''STOP'' ''session-id########0.5'',
         ToolResultMsg demo_tool_request \<lparr>res_callId = ''123'', result = ''a.txt''\<rparr>])"
proof -
  let ?config = "client_config demo_client"
  let ?r0 = "\<lparr>res_callId = ''123'', result = ''a.txt''\<rparr>"
  have hyps: "Math_random demo_core [] = (''0.5'', [])
      \<and> demo_client (JStr ''initial prompt'') (getSessionId ?config @ ''########'' @ ''0.5'') []
          = (Yield (EvToolCallRequest demo_tool_request) (Yield (EvFinished ''STOP'') Done),
             [''sendMessageStream''])
      \<and> execute demo_core ?config [demo_tool_request] [''sendMessageStream'']
          = (Inr [?r0], [''sendMessageStream'', ''shell''])
      \<and> res_callId ?r0 = callId demo_tool_request
      \<and> fst (deliver quiet_callback []
                [ToolCallRequestMsg demo_tool_request,
                 Finished ''STOP'' (getSessionId ?config @ ''########'' @ ''0.5''),
                 ToolResultMsg demo_tool_request ?r0]) = None"
    using demo_execute_tool_request
    by (simp add: demo_core_def demo_client_def demo_tool_request_def demo_request_def
        quiet_callback_def)
  have "streamQuery_turn demo_core ?config demo_client (execute demo_core ?config) quiet_callback
          (JStr ''initial prompt'') [] []
      = (TurnContinue (JArr [functionResponse_part (name demo_tool_request) (result ?r0)]),
         [''sendMessageStream'', ''shell''],
         [] @ [ToolCallRequestMsg demo_tool_request,
               Finished ''STOP'' (getSessionId ?config @ ''########'' @ ''0.5''),
               ToolResultMsg demo_tool_request ?r0])"
    using tool_result_after_its_request [where core = demo_core and config = ?config
        and client = demo_client and sched = "execute demo_core ?config"
        and callback = quiet_callback
        and prompt = "JStr ''initial prompt''" and w = "[]" and rnd = "''0.5''" and ?w1.0 = "[]"
        and ?req0.0 = demo_tool_request and reason = "''STOP''" and ?w2.0 = "[''sendMessageStream'']"
        and ?r0.0 = ?r0 and ?w3.0 = "[''sendMessageStream'', ''shell'']" and log = "[]",
        THEN conjunct2, THEN mp, OF hyps]
    by simp
  then show ?thesis
    by (simp add: client_config_def demo_tool_request_def demo_request_def)
qed

subsection \<open>Results whose callId matches no request\<close>

lemma set_tool_result_messages:
  "set (tool_result_messages requests results)
     = {ToolResultMsg req r | req r. r \<in> set results \<and> originalRequest_of requests r = Some req}"
  by (auto simp: tool_result_messages_def split: option.splits)

lemma length_tool_result_messages:
  "length (tool_result_messages requests results)
     = length (filter (\<lambda>r. \<exists>req \<in> set requests. callId req = res_callId r) results)"
proof (induction results)
  case Nil
  then show ?case by (simp add: tool_result_messages_def)
next
  case (Cons r results)
  have "tool_result_messages requests (r # results)
      = (case originalRequest_of requests r of
           Some req \<Rightarrow> [ToolResultMsg req r] | None \<Rightarrow> [])
        @ tool_result_messages requests results"
    by (simp add: tool_result_messages_def)
  then show ?case
    using Cons originalRequest_of_None [of requests r]
    by (cases "originalRequest_of requests r") auto
qed

lemma toolResponseParts_nth:
  assumes "i < length results"
  shows "toolResponseParts requests results ! i
     = functionResponse_part (originalRequest_name (originalRequest_of requests (results ! i)))
         (result (results ! i))"
  using assms by (simp add: toolResponseParts_def)

text \<open>
  C10. In a turn whose stream is classified to a non-empty list of requests, whose
  scheduler returns and whose callback returns, the loop goes on with one
  function-response payload per result, in order. For a result whose callId matches no collected request, no \<^verbatim>\<open>tool_result\<close>
  message is emitted and its payload carries the empty operation name and the result text;
  for a result whose callId matches, a \<^verbatim>\<open>tool_result\<close> message with a request of that
  callId is emitted and its payload carries that request's name and the result text. One
  \<^verbatim>\<open>tool_result\<close> message is emitted per matching result.
\<close>

theorem unmatched_result_no_message_empty_name:
  assumes "Math_random core w = (rnd, w1)"
    and "client prompt (getSessionId config @ ''########'' @ rnd) w1 = (s, w2)"
    and "stream_failure s = None"
    and "stream_requests s \<noteq> []"
    and "sched (stream_requests s) w2 = (Inr results, w3)"
    and "fst (deliver callback log
                (stream_messages core (getSessionId config @ ''########'' @ rnd) s
                   @ tool_result_messages (stream_requests s) results)) = None"
  shows "\<exists>parts msgs.
      streamQuery_turn core config client sched callback prompt w log
        = (TurnContinue (JArr parts), w3,
           log @ stream_messages core (getSessionId config @ ''########'' @ rnd) s @ msgs)
    \<and> length parts = length results
    \<and> length msgs
        = length (filter (\<lambda>r. \<exists>req \<in> set (stream_requests s). callId req = res_callId r) results)
    \<and> (\<forall>i<length results.
          ((\<forall>req \<in> set (stream_requests s). callId req \<noteq> res_callId (results ! i))
             \<longrightarrow> (\<forall>req. ToolResultMsg req (results ! i) \<notin> set msgs)
               \<and> parts ! i = functionResponse_part [] (result (results ! i)))
        \<and> ((\<exists>req \<in> set (stream_requests s). callId req = res_callId (results ! i))
             \<longrightarrow> (\<exists>req \<in> set (stream_requests s). callId req = res_callId (results ! i)
                   \<and> ToolResultMsg req (results ! i) \<in> set msgs
                   \<and> parts ! i = functionResponse_part (name req) (result (results ! i)))))"
proof -
  let ?requests = "stream_requests s"
  let ?parts = "toolResponseParts ?requests results"
  let ?msgs = "tool_result_messages ?requests results"
  let ?smsgs = "stream_messages core (getSessionId config @ ''########'' @ rnd) s"
  have q1: "fst (deliver callback log ?smsgs) = None"
    and q2: "fst (deliver callback (log @ ?smsgs) ?msgs) = None"
    using assms(6) unfolding deliver_append_all by (rule conjunct1, rule conjunct2)
  have d1: "deliver callback log ?smsgs = (None, log @ ?smsgs)"
    using q1 by (rule deliver_all)
  have d2: "deliver callback (log @ ?smsgs) ?msgs = (None, (log @ ?smsgs) @ ?msgs)"
    using q2 by (rule deliver_all)
  have turn: "streamQuery_turn core config client sched callback prompt w log
        = (TurnContinue (JArr ?parts), w3, log @ ?smsgs @ ?msgs)"
    unfolding streamQuery_turn_eq [where client = client and currentPrompt = prompt
        and config = config and sched = sched and callback = callback and log = log,
        OF assms(1,2)]
    using d1 d2 assms(3,4,5) by simp
  have len: "length ?parts = length results"
    by (simp add: toolResponseParts_def)
  have each: "((\<forall>req \<in> set ?requests. callId req \<noteq> res_callId (results ! i))
             \<longrightarrow> (\<forall>req. ToolResultMsg req (results ! i) \<notin> set ?msgs)
               \<and> ?parts ! i = functionResponse_part [] (result (results ! i)))
        \<and> ((\<exists>req \<in> set ?requests. callId req = res_callId (results ! i))
             \<longrightarrow> (\<exists>req \<in> set ?requests. callId req = res_callId (results ! i)
                   \<and> ToolResultMsg req (results ! i) \<in> set ?msgs
                   \<and> ?parts ! i = functionResponse_part (name req) (result (results ! i))))"
    if i: "i < length results" for i
  proof (intro conjI impI)
    assume "\<forall>req \<in> set ?requests. callId req \<noteq> res_callId (results ! i)"
    then have none: "originalRequest_of ?requests (results ! i) = None"
      by (simp add: originalRequest_of_None)
    then show "\<forall>req. ToolResultMsg req (results ! i) \<notin> set ?msgs"
      by (simp add: set_tool_result_messages)
    show "?parts ! i = functionResponse_part [] (result (results ! i))"
      using none i by (simp add: toolResponseParts_nth originalRequest_name_def)
  next
    assume "\<exists>req \<in> set ?requests. callId req = res_callId (results ! i)"
    then have "originalRequest_of ?requests (results ! i) \<noteq> None"
      by (simp add: originalRequest_of_None)
    then obtain req where found: "originalRequest_of ?requests (results ! i) = Some req"
      by blast
    then have req: "req \<in> set ?requests" "callId req = res_callId (results ! i)"
      using originalRequest_of_Some by blast+
    have "ToolResultMsg req (results ! i) \<in> set ?msgs"
      using found i by (auto simp: set_tool_result_messages)
    moreover have "?parts ! i = functionResponse_part (name req) (result (results ! i))"
      using found i by (simp add: toolResponseParts_nth originalRequest_name_def)
    ultimately show "\<exists>req \<in> set ?requests. callId req = res_callId (results ! i)
        \<and> ToolResultMsg req (results ! i) \<in> set ?msgs
        \<and> ?parts ! i = functionResponse_part (name req) (result (results ! i))"
      using req by blast
  qed
  show ?thesis
  proof (rule exI [of _ ?parts], rule exI [of _ ?msgs], intro conjI)
    show "streamQuery_turn core config client sched callback prompt w log
        = (TurnContinue (JArr ?parts), w3,
           log @ stream_messages core (getSessionId config @ ''########'' @ rnd) s @ ?msgs)"
      by (rule turn)
    show "length ?parts = length results"
      by (rule len)
    show "length ?msgs
        = length (filter (\<lambda>r. \<exists>req \<in> set ?requests. callId req = res_callId r) results)"
      by (rule length_tool_result_messages)
    show "\<forall>i<length results.
          ((\<forall>req \<in> set ?requests. callId req \<noteq> res_callId (results ! i))
             \<longrightarrow> (\<forall>req. ToolResultMsg req (results ! i) \<notin> set ?msgs)
               \<and> ?parts ! i = functionResponse_part [] (result (results ! i)))
        \<and> ((\<exists>req \<in> set ?requests. callId req = res_callId (results ! i))
             \<longrightarrow> (\<exists>req \<in> set ?requests. callId req = res_callId (results ! i)
                   \<and> ToolResultMsg req (results ! i) \<in> set ?msgs
                   \<and> ?parts ! i = functionResponse_part (name req) (result (results ! i))))"
    proof (rule allI, rule impI)
      fix i assume "i < length results"
      then show "((\<forall>req \<in> set ?requests. callId req \<noteq> res_callId (results ! i))
             \<longrightarrow> (\<forall>req. ToolResultMsg req (results ! i) \<notin> set ?msgs)
               \<and> ?parts ! i = functionResponse_part [] (result (results ! i)))
        \<and> ((\<exists>req \<in> set ?requests. callId req = res_callId (results ! i))
             \<longrightarrow> (\<exists>req \<in> set ?requests. callId req = res_callId (results ! i)
                   \<and> ToolResultMsg req (results ! i) \<in> set ?msgs
                   \<and> ?parts ! i = functionResponse_part (name req) (result (results ! i))))"
        by (rule each)
    qed
  qed
qed

theorem unmatched_result_no_message_empty_name_witness:
  "\<exists>parts msgs.
     streamQuery_turn demo_core (client_config demo_client) demo_client stray_scheduler
         quiet_callback (JStr ''initial prompt'') [] []
       = (TurnContinue (JArr parts), [''sendMessageStream'', ''execute''],
          [ToolCallRequestMsg demo_tool_request, Finished ''STOP'' ''session-id########0.5''] @ msgs)
     \<and> length msgs = 1
     \<and> parts ! 1 = functionResponse_part [] ''stray''
     \<and> (\<forall>req. ToolResultMsg req \<lparr>res_callId = ''999'', result = ''stray''\<rparr> \<notin> set msgs)"
proof -
  let ?config = "client_config demo_client"
  let ?s = "Yield (EvToolCallRequest demo_tool_request) (Yield (EvFinished ''STOP'') Done)"
  let ?results = "[\<lparr>res_callId = ''123'', result = ''a.txt''\<rparr>,
                   \<lparr>res_callId = ''999'', result = ''stray''\<rparr>]"
  have h1: "Math_random demo_core [] = (''0.5'', [])"
    by (simp add: demo_core_def)
  have h2: "demo_client (JStr ''initial prompt'') (getSessionId ?config @ ''########'' @ ''0.5'') []
      = (?s, [''sendMessageStream''])"
    by (simp add: demo_client_def)
  have h3: "stream_failure ?s = None"
    by simp
  have h4: "stream_requests ?s \<noteq> []"
    by simp
  have h5: "stray_scheduler (stream_requests ?s) [''sendMessageStream'']
      = (Inr ?results, [''sendMessageStream'', ''execute''])"
    by (simp add: stray_scheduler_def)
  have h6: "fst (deliver quiet_callback []
                (stream_messages demo_core (getSessionId ?config @ ''########'' @ ''0.5'') ?s
                   @ tool_result_messages (stream_requests ?s) ?results)) = None"
    by (simp add: deliver_quiet quiet_callback_def)
  from unmatched_result_no_message_empty_name [where core = demo_core and config = ?config
      and client = demo_client and sched = stray_scheduler and callback = quiet_callback
      and prompt = "JStr ''initial prompt''" and log = "[]", OF h1 h2 h3 h4 h5 h6]
  obtain parts msgs where
    turn: "streamQuery_turn demo_core ?config demo_client stray_scheduler
         quiet_callback (JStr ''initial prompt'') [] []
       = (TurnContinue (JArr parts), [''sendMessageStream'', ''execute''],
          [] @ stream_messages demo_core (getSessionId ?config @ ''########'' @ ''0.5'') ?s @ msgs)"
    and len: "length msgs
        = length (filter (\<lambda>r. \<exists>req \<in> set (stream_requests ?s). callId req = res_callId r)
            ?results)"
    and each: "\<forall>i<length ?results.
          ((\<forall>req \<in> set (stream_requests ?s). callId req \<noteq> res_callId (?results ! i))
             \<longrightarrow> (\<forall>req. ToolResultMsg req (?results ! i) \<notin> set msgs)
               \<and> parts ! i = functionResponse_part [] (result (?results ! i)))
        \<and> ((\<exists>req \<in> set (stream_requests ?s). callId req = res_callId (?results ! i))
             \<longrightarrow> (\<exists>req \<in> set (stream_requests ?s). callId req = res_callId (?results ! i)
                   \<and> ToolResultMsg req (?results ! i) \<in> set msgs
                   \<and> parts ! i = functionResponse_part (name req) (result (?results ! i))))"
    by (elim exE conjE) (rule that)
  have "streamQuery_turn demo_core ?config demo_client stray_scheduler
         quiet_callback (JStr ''initial prompt'') [] []
       = (TurnContinue (JArr parts), [''sendMessageStream'', ''execute''],
          [ToolCallRequestMsg demo_tool_request, Finished ''STOP'' ''session-id########0.5''] @ msgs)"
    using turn by (simp add: client_config_def)
  moreover have "length msgs = 1"
    using len by (simp add: demo_tool_request_def demo_request_def)
  moreover have "(\<forall>req. ToolResultMsg req \<lparr>res_callId = ''999'', result = ''stray''\<rparr> \<notin> set msgs)
      \<and> parts ! 1 = functionResponse_part [] ''stray''"
    using each [THEN spec, of 1] by (simp add: demo_tool_request_def demo_request_def)
  ultimately show ?thesis
    by blast
qed

subsection \<open>The \<^verbatim>\<open>try\<close> statement, turn by turn\<close>

lemma streamQuery_catch_eq:
  "streamQuery_catch core callback e w log =
     ((case callback log (ErrorMsg (getErrorMessage core e)) of
         None \<Rightarrow> Returned
       | Some e' \<Rightarrow> Raised e'),
      w, log @ [ErrorMsg (getErrorMessage core e)])"
  by (simp add: streamQuery_catch_def split: option.split)

lemma streamQuery_try_Suc:
  "streamQuery_try core config client sched callback (Suc fuel) currentPrompt w log =
     (case streamQuery_turn core config client sched callback currentPrompt w log of
        (TurnBreak, w', log') \<Rightarrow> (Returned, w', log')
      | (TurnThrow e, w', log') \<Rightarrow> streamQuery_catch core callback e w' log'
      | (TurnContinue nextPrompt, w', log') \<Rightarrow>
          streamQuery_try core config client sched callback fuel nextPrompt w' log')"
  by (simp add: streamQuery_try_def split: prod.split turn_exit.split)

text \<open>What one more turn makes of the \<^verbatim>\<open>try\<close> statement, by what happens in the turn:
  the callback throws on a message of the stream, the stream throws, no request was
  collected, the scheduler throws, the callback throws on a \<^verbatim>\<open>tool_result\<close> message, or
  the loop goes on.\<close>

lemma streamQuery_try_turn:
  assumes "Math_random core w = (rnd, w1)"
    and "client currentPrompt (getSessionId config @ ''########'' @ rnd) w1 = (s, w2)"
    and "deliver callback log (stream_messages core (getSessionId config @ ''########'' @ rnd) s)
           = (d, log1)"
  shows "streamQuery_try core config client sched callback (Suc fuel) currentPrompt w log =
     (case d of
        Some e \<Rightarrow> streamQuery_catch core callback e w2 log1
      | None \<Rightarrow>
          (case stream_failure s of
             Some e \<Rightarrow> streamQuery_catch core callback e w2 log1
           | None \<Rightarrow>
               if stream_requests s = [] then (Returned, w2, log1)
               else
                 (case sched (stream_requests s) w2 of
                    (Inl e, w3) \<Rightarrow> streamQuery_catch core callback e w3 log1
                  | (Inr results, w3) \<Rightarrow>
                      (case deliver callback log1
                              (tool_result_messages (stream_requests s) results) of
                         (Some e, log2) \<Rightarrow> streamQuery_catch core callback e w3 log2
                       | (None, log2) \<Rightarrow>
                           streamQuery_try core config client sched callback fuel
                             (JArr (toolResponseParts (stream_requests s) results)) w3 log2))))"
  unfolding streamQuery_try_Suc
    streamQuery_turn_eq [where client = client and currentPrompt = currentPrompt
      and config = config and sched = sched and callback = callback and log = log,
      OF assms(1,2)]
    assms(3)
  by (simp split: option.split prod.split sum.split)

lemma streamQuery_try_not_raised:
  assumes "\<forall>l m. callback l (ErrorMsg m) = None"
  shows "fst (streamQuery_try core config client sched callback fuel prompt w log) \<noteq> Raised e"
proof -
  obtain x w' log' where
    "streamQuery_loop core config client sched callback fuel prompt w log = (x, w', log')"
    by (cases "streamQuery_loop core config client sched callback fuel prompt w log")
  then show ?thesis
    using assms by (cases x) (simp_all add: streamQuery_try_def streamQuery_catch_def)
qed

subsection \<open>Failures inside the loop\<close>

text \<open>
  C5, as stated, fails. With a configuration that has no Gemini client, \<open>streamQuery\<close>
  throws "Gemini client is not initialized." before its \<^verbatim>\<open>try\<close> statement, and emits
  nothing. With a client whose stream throws and a callback that throws when it is given
  an error message, the failure of the stream is caught and reported, and what the
  callback throws on the report is thrown out of \<open>streamQuery\<close>.
\<close>

theorem streamQuery_raises_counterexample:
  "streamQuery demo_core demo_config quiet_callback 1 (JStr ''hello'') []
     = (Raised (ThrownError (Error ''Gemini client is not initialized.'')), [], [])
   \<and> streamQuery demo_core (client_config failing_client) strict_callback 1 (JStr ''hello'') []
     = (Raised (ThrownError (Error ''callback failed'')), [''sendMessageStream''],
        [Content ''partial'', ErrorMsg ''connection lost''])"
  by (simp add: streamQuery_def streamQuery_with_def streamQuery_try_def streamQuery_catch_def
      streamQuery_turn_def processStream_def demo_config_def client_config_def
      failing_client_def strict_callback_def demo_core_def demo_getErrorMessage_def)

text \<open>
  C5, amended. \<open>streamQuery\<close> throws "Gemini client is not initialized.", having emitted
  nothing, when the configuration has no Gemini client; with a client it is its \<^verbatim>\<open>try\<close>
  statement, and it never throws if the callback returns whenever it is given an error
  message. In any turn of the loop (entered with any prompt, world and log), a failure
  inside the loop body is caught and reported: whether the callback throws on a message of
  the stream, the stream throws, the scheduler throws, or the callback throws on a
  \<^verbatim>\<open>tool_result\<close> message, the run ends with one call of the callback, with the error
  message made from what was thrown, as the last message of the log, so with no
  \<^verbatim>\<open>finished\<close> message after it; \<open>streamQuery\<close> then returns if that call returns, and
  throws what that call throws. Without a failure and with requests, the run goes on with
  the next turn.
\<close>

theorem streamQuery_catches_loop_failures:
  assumes "Math_random core w = (rnd, w1)"
    and "client currentPrompt (getSessionId config @ ''########'' @ rnd) w1 = (s, w2)"
    and "deliver callback log (stream_messages core (getSessionId config @ ''########'' @ rnd) s)
           = (d, log1)"
  shows "(getGeminiClient config = None
          \<longrightarrow> streamQuery_with core config sched callback n prompt v
              = (Raised (ThrownError (Error ''Gemini client is not initialized.'')), v, []))
    \<and> (getGeminiClient config = Some client
          \<longrightarrow> streamQuery_with core config sched callback n prompt v
              = streamQuery_try core config client sched callback n prompt v [])
    \<and> (getGeminiClient config = Some client \<and> (\<forall>l m. callback l (ErrorMsg m) = None)
          \<longrightarrow> (\<forall>e. fst (streamQuery_with core config sched callback n prompt v) \<noteq> Raised e))
    \<and> (\<forall>e. d = Some e
          \<longrightarrow> streamQuery_try core config client sched callback (Suc fuel) currentPrompt w log
              = streamQuery_catch core callback e w2 log1)
    \<and> (\<forall>e. d = None \<and> stream_failure s = Some e
          \<longrightarrow> streamQuery_try core config client sched callback (Suc fuel) currentPrompt w log
              = streamQuery_catch core callback e w2 log1)
    \<and> (\<forall>e w3. d = None \<and> stream_failure s = None \<and> stream_requests s \<noteq> []
            \<and> sched (stream_requests s) w2 = (Inl e, w3)
          \<longrightarrow> streamQuery_try core config client sched callback (Suc fuel) currentPrompt w log
              = streamQuery_catch core callback e w3 log1)
    \<and> (\<forall>e results w3 log2. d = None \<and> stream_failure s = None \<and> stream_requests s \<noteq> []
            \<and> sched (stream_requests s) w2 = (Inr results, w3)
            \<and> deliver callback log1 (tool_result_messages (stream_requests s) results)
                = (Some e, log2)
          \<longrightarrow> streamQuery_try core config client sched callback (Suc fuel) currentPrompt w log
              = streamQuery_catch core callback e w3 log2)
    \<and> (\<forall>results w3 log2. d = None \<and> stream_failure s = None \<and> stream_requests s \<noteq> []
            \<and> sched (stream_requests s) w2 = (Inr results, w3)
            \<and> deliver callback log1 (tool_result_messages (stream_requests s) results)
                = (None, log2)
          \<longrightarrow> streamQuery_try core config client sched callback (Suc fuel) currentPrompt w log
              = streamQuery_try core config client sched callback fuel
                  (JArr (toolResponseParts (stream_requests s) results)) w3 log2)
    \<and> (\<forall>e w' l.
          streamQuery_catch core callback e w' l
            = ((case callback l (ErrorMsg (getErrorMessage core e)) of
                  None \<Rightarrow> Returned
                | Some e' \<Rightarrow> Raised e'),
               w', l @ [ErrorMsg (getErrorMessage core e)]))"
proof -
  note step = streamQuery_try_turn [where client = client and currentPrompt = currentPrompt
      and config = config and sched = sched and callback = callback and log = log
      and fuel = fuel, OF assms]
  have c1: "getGeminiClient config = None
          \<longrightarrow> streamQuery_with core config sched callback n prompt v
              = (Raised (ThrownError (Error ''Gemini client is not initialized.'')), v, [])"
    by (simp add: streamQuery_with_def)
  have c2: "getGeminiClient config = Some client
          \<longrightarrow> streamQuery_with core config sched callback n prompt v
              = streamQuery_try core config client sched callback n prompt v []"
    by (simp add: streamQuery_with_def)
  have c3: "getGeminiClient config = Some client \<and> (\<forall>l m. callback l (ErrorMsg m) = None)
          \<longrightarrow> (\<forall>e. fst (streamQuery_with core config sched callback n prompt v) \<noteq> Raised e)"
    using streamQuery_try_not_raised [of callback core config client sched n prompt v "[]"]
    by (simp add: streamQuery_with_def)
  have c4: "\<forall>e. d = Some e
          \<longrightarrow> streamQuery_try core config client sched callback (Suc fuel) currentPrompt w log
              = streamQuery_catch core callback e w2 log1"
    unfolding step by simp
  have c5: "\<forall>e. d = None \<and> stream_failure s = Some e
          \<longrightarrow> streamQuery_try core config client sched callback (Suc fuel) currentPrompt w log
              = streamQuery_catch core callback e w2 log1"
    unfolding step by simp
  have c6: "\<forall>e w3. d = None \<and> stream_failure s = None \<and> stream_requests s \<noteq> []
            \<and> sched (stream_requests s) w2 = (Inl e, w3)
          \<longrightarrow> streamQuery_try core config client sched callback (Suc fuel) currentPrompt w log
              = streamQuery_catch core callback e w3 log1"
    unfolding step by simp
  have c7: "\<forall>e results w3 log2. d = None \<and> stream_failure s = None \<and> stream_requests s \<noteq> []
            \<and> sched (stream_requests s) w2 = (Inr results, w3)
            \<and> deliver callback log1 (tool_result_messages (stream_requests s) results)
                = (Some e, log2)
          \<longrightarrow> streamQuery_try core config client sched callback (Suc fuel) currentPrompt w log
              = streamQuery_catch core callback e w3 log2"
    unfolding step by simp
  have c8: "\<forall>results w3 log2. d = None \<and> stream_failure s = None \<and> stream_requests s \<noteq> []
            \<and> sched (stream_requests s) w2 = (Inr results, w3)
            \<and> deliver callback log1 (tool_result_messages (stream_requests s) results)
                = (None, log2)
          \<longrightarrow> streamQuery_try core config client sched callback (Suc fuel) currentPrompt w log
              = streamQuery_try core config client sched callback fuel
                  (JArr (toolResponseParts (stream_requests s) results)) w3 log2"
    unfolding step by simp
  have c9: "\<forall>e w' l.
          streamQuery_catch core callback e w' l
            = ((case callback l (ErrorMsg (getErrorMessage core e)) of
                  None \<Rightarrow> Returned
                | Some e' \<Rightarrow> Raised e'),
               w', l @ [ErrorMsg (getErrorMessage core e)])"
    by (simp add: streamQuery_catch_eq)
  show ?thesis
    by (intro conjI c1 c2 c3 c4 c5 c6 c7 c8 c9)
qed

theorem streamQuery_catches_loop_failures_witness:
  "streamQuery demo_core (client_config failing_client) quiet_callback 1 (JStr ''hello'') []
     = (Returned, [''sendMessageStream''], [Content ''partial'', ErrorMsg ''connection lost''])"
proof -
  let ?config = "client_config failing_client"
  let ?sched = "execute demo_core ?config"
  let ?e = "ThrownError (Error ''connection lost'')"
  let ?s = "Yield (EvContent ''partial'') (Fail ?e)"
  have client: "getGeminiClient ?config = Some failing_client"
    by (simp add: client_config_def)
  have h1: "Math_random demo_core [] = (''0.5'', [])"
    by (simp add: demo_core_def)
  have h2: "failing_client (JStr ''hello'') (getSessionId ?config @ ''########'' @ ''0.5'') []
      = (?s, [''sendMessageStream''])"
    by (simp add: failing_client_def)
  have h3: "deliver quiet_callback []
        (stream_messages demo_core (getSessionId ?config @ ''########'' @ ''0.5'') ?s)
      = (None, [Content ''partial''])"
    by (simp add: quiet_callback_def)
  note facts = streamQuery_catches_loop_failures [where client = failing_client
      and currentPrompt = "JStr ''hello''" and config = ?config and sched = ?sched
      and callback = quiet_callback and log = "[]" and fuel = 0 and n = "Suc 0"
      and prompt = "JStr ''hello''" and v = "[]", OF h1 h2 h3]
  have failed: "None = (None :: thrown option) \<and> stream_failure ?s = Some ?e"
    by simp
  have "streamQuery_with demo_core ?config ?sched quiet_callback (Suc 0) (JStr ''hello'') []
      = streamQuery_try demo_core ?config failing_client ?sched quiet_callback (Suc 0)
          (JStr ''hello'') [] []"
    using facts [THEN conjunct2, THEN conjunct1, THEN mp, OF client] .
  also have "\<dots> = streamQuery_catch demo_core quiet_callback ?e [''sendMessageStream'']
      [Content ''partial'']"
    using facts [THEN conjunct2, THEN conjunct2, THEN conjunct2, THEN conjunct2,
        THEN conjunct1, THEN spec, THEN mp, OF failed] .
  also have "\<dots> = ((case quiet_callback [Content ''partial'']
                           (ErrorMsg (getErrorMessage demo_core ?e)) of
                      None \<Rightarrow> Returned
                    | Some e' \<Rightarrow> Raised e'),
                   [''sendMessageStream''],
                   [Content ''partial''] @ [ErrorMsg (getErrorMessage demo_core ?e)])"
    using facts [THEN conjunct2, THEN conjunct2, THEN conjunct2, THEN conjunct2,
        THEN conjunct2, THEN conjunct2, THEN conjunct2, THEN conjunct2,
        THEN spec, THEN spec, THEN spec] .
  finally show ?thesis
    by (simp add: streamQuery_def quiet_callback_def demo_core_def demo_getErrorMessage_def)
qed

subsection \<open>When the loop ends\<close>

text \<open>
  C8, as stated, fails: the loop also returns when a failure is caught. With a producer
  whose first stream yields a tool call request and then throws, \<open>streamQuery\<close> returns
  after one turn, and the list of requests collected from that stream is not empty.
\<close>

theorem loop_returns_on_failure_counterexample:
  "streamQuery demo_core (client_config dropping_client) quiet_callback 1 (JStr ''hello'') []
     = (Returned, [''sendMessageStream''],
        [ToolCallRequestMsg demo_tool_request, ErrorMsg ''connection lost''])
   \<and> stream_requests (fst (dropping_client (JStr ''hello'') ''session-id########0.5'' []))
     = [demo_tool_request]"
  by (simp add: streamQuery_def streamQuery_with_def streamQuery_try_def streamQuery_catch_def
      streamQuery_turn_def processStream_def client_config_def dropping_client_def
      quiet_callback_def demo_core_def demo_getErrorMessage_def)

text \<open>
  C8, amended. Take a turn of the loop, entered with any prompt, world and log; \<open>s\<close> is
  its stream, and \<open>log1\<close> the log once the messages of \<open>s\<close> have been handed to the
  callback, up to a call that throws. If \<open>s\<close> yields no tool call request, and the turn
  is the first, \<open>streamQuery\<close> ends after exactly this turn (one unit of fuel is enough,
  and any more changes nothing), having emitted only messages of \<open>s\<close>: it returns if
  nothing was thrown, and otherwise reports what the callback or the stream threw. In any
  turn, the loop ends with the turn if and only if the list of requests collected from
  \<open>s\<close> is empty or a failure is thrown in the turn, by the stream, the scheduler or the
  callback. A failure is caught and reported by one call of the callback, with an error
  message that is the last of the log, after which \<open>streamQuery\<close> returns (or throws
  what that call throws). Otherwise the run goes on with a new turn whose input is the
  list of function responses made from the scheduler's results.
\<close>

theorem loop_ends_iff_no_requests_or_failure:
  assumes "Math_random core w = (rnd, w1)"
    and "client currentPrompt (getSessionId config @ ''########'' @ rnd) w1 = (s, w2)"
    and "deliver callback log (stream_messages core (getSessionId config @ ''########'' @ rnd) s)
           = (d, log1)"
  shows "(getGeminiClient config = Some client \<and> log = [] \<and> stream_requests s = []
          \<longrightarrow> streamQuery_with core config sched callback (Suc fuel) currentPrompt w
              = (case (case d of Some e \<Rightarrow> Some e | None \<Rightarrow> stream_failure s) of
                   None \<Rightarrow> (Returned, w2, log1)
                 | Some e \<Rightarrow> streamQuery_catch core callback e w2 log1))
    \<and> (\<exists>k. log1
              = log @ take k (stream_messages core (getSessionId config @ ''########'' @ rnd) s))
    \<and> ((\<forall>nextPrompt.
           fst (streamQuery_turn core config client sched callback currentPrompt w log)
             \<noteq> TurnContinue nextPrompt)
        \<longleftrightarrow> (stream_requests s = [] \<or> d \<noteq> None \<or> stream_failure s \<noteq> None
             \<or> (\<exists>e w3. sched (stream_requests s) w2 = (Inl e, w3))
             \<or> (\<exists>results w3 e log2. sched (stream_requests s) w2 = (Inr results, w3)
                  \<and> deliver callback log1 (tool_result_messages (stream_requests s) results)
                      = (Some e, log2))))
    \<and> streamQuery_try core config client sched callback (Suc fuel) currentPrompt w log
        = (case d of
             Some e \<Rightarrow> streamQuery_catch core callback e w2 log1
           | None \<Rightarrow>
               (case stream_failure s of
                  Some e \<Rightarrow> streamQuery_catch core callback e w2 log1
                | None \<Rightarrow>
                    if stream_requests s = [] then (Returned, w2, log1)
                    else
                      (case sched (stream_requests s) w2 of
                         (Inl e, w3) \<Rightarrow> streamQuery_catch core callback e w3 log1
                       | (Inr results, w3) \<Rightarrow>
                           (case deliver callback log1
                                   (tool_result_messages (stream_requests s) results) of
                              (Some e, log2) \<Rightarrow> streamQuery_catch core callback e w3 log2
                            | (None, log2) \<Rightarrow>
                                streamQuery_try core config client sched callback fuel
                                  (JArr (toolResponseParts (stream_requests s) results))
                                  w3 log2))))
    \<and> (\<forall>e w' l.
          streamQuery_catch core callback e w' l
            = ((case callback l (ErrorMsg (getErrorMessage core e)) of
                  None \<Rightarrow> Returned
                | Some e' \<Rightarrow> Raised e'),
               w', l @ [ErrorMsg (getErrorMessage core e)]))"
proof (intro conjI)
  let ?pid = "getSessionId config @ ''########'' @ rnd"
  note step = streamQuery_try_turn [where client = client and currentPrompt = currentPrompt
      and config = config and sched = sched and callback = callback and log = log
      and fuel = fuel, OF assms]
  note turn = streamQuery_turn_eq [where client = client and currentPrompt = currentPrompt
      and config = config and sched = sched and callback = callback and log = log,
      OF assms(1,2)]
  show "getGeminiClient config = Some client \<and> log = [] \<and> stream_requests s = []
      \<longrightarrow> streamQuery_with core config sched callback (Suc fuel) currentPrompt w
          = (case (case d of Some e \<Rightarrow> Some e | None \<Rightarrow> stream_failure s) of
               None \<Rightarrow> (Returned, w2, log1)
             | Some e \<Rightarrow> streamQuery_catch core callback e w2 log1)"
  proof (intro impI, elim conjE)
    assume c: "getGeminiClient config = Some client" and l: "log = []"
      and r: "stream_requests s = []"
    have "streamQuery_with core config sched callback (Suc fuel) currentPrompt w
        = streamQuery_try core config client sched callback (Suc fuel) currentPrompt w log"
      using c l by (simp add: streamQuery_with_def)
    also have "\<dots> = (case (case d of Some e \<Rightarrow> Some e | None \<Rightarrow> stream_failure s) of
               None \<Rightarrow> (Returned, w2, log1)
             | Some e \<Rightarrow> streamQuery_catch core callback e w2 log1)"
      unfolding step using r by (simp split: option.split)
    finally show "streamQuery_with core config sched callback (Suc fuel) currentPrompt w
          = (case (case d of Some e \<Rightarrow> Some e | None \<Rightarrow> stream_failure s) of
               None \<Rightarrow> (Returned, w2, log1)
             | Some e \<Rightarrow> streamQuery_catch core callback e w2 log1)" .
  qed
  show "\<exists>k. log1 = log @ take k (stream_messages core ?pid s)"
    using deliver_log [of callback log "stream_messages core ?pid s"] assms(3) by simp
  show "(\<forall>nextPrompt.
           fst (streamQuery_turn core config client sched callback currentPrompt w log)
             \<noteq> TurnContinue nextPrompt)
        \<longleftrightarrow> (stream_requests s = [] \<or> d \<noteq> None \<or> stream_failure s \<noteq> None
             \<or> (\<exists>e w3. sched (stream_requests s) w2 = (Inl e, w3))
             \<or> (\<exists>results w3 e log2. sched (stream_requests s) w2 = (Inr results, w3)
                  \<and> deliver callback log1 (tool_result_messages (stream_requests s) results)
                      = (Some e, log2)))"
  proof (cases d)
    case (Some e)
    then show ?thesis unfolding turn assms(3) by simp
  next
    case None
    note d = None
    show ?thesis
    proof (cases "stream_failure s")
      case (Some e)
      then show ?thesis unfolding turn assms(3) using d by simp
    next
      case None
      note ok = None
      show ?thesis
      proof (cases "stream_requests s = []")
        case True
        then show ?thesis unfolding turn assms(3) using d ok by simp
      next
        case False
        obtain r w3 where run: "sched (stream_requests s) w2 = (r, w3)"
          by (cases "sched (stream_requests s) w2")
        show ?thesis
        proof (cases r)
          case (Inl e)
          then show ?thesis unfolding turn assms(3) using d ok False run by simp
        next
          case (Inr results)
          obtain d2 log2 where d2:
            "deliver callback log1 (tool_result_messages (stream_requests s) results) = (d2, log2)"
            by (cases "deliver callback log1 (tool_result_messages (stream_requests s) results)")
          show ?thesis
            unfolding turn assms(3) using d ok False run Inr d2 by (cases d2) simp_all
        qed
      qed
    qed
  qed
  show "streamQuery_try core config client sched callback (Suc fuel) currentPrompt w log
        = (case d of
             Some e \<Rightarrow> streamQuery_catch core callback e w2 log1
           | None \<Rightarrow>
               (case stream_failure s of
                  Some e \<Rightarrow> streamQuery_catch core callback e w2 log1
                | None \<Rightarrow>
                    if stream_requests s = [] then (Returned, w2, log1)
                    else
                      (case sched (stream_requests s) w2 of
                         (Inl e, w3) \<Rightarrow> streamQuery_catch core callback e w3 log1
                       | (Inr results, w3) \<Rightarrow>
                           (case deliver callback log1
                                   (tool_result_messages (stream_requests s) results) of
                              (Some e, log2) \<Rightarrow> streamQuery_catch core callback e w3 log2
                            | (None, log2) \<Rightarrow>
                                streamQuery_try core config client sched callback fuel
                                  (JArr (toolResponseParts (stream_requests s) results))
                                  w3 log2))))"
    by (rule step)
  show "\<forall>e w' l.
          streamQuery_catch core callback e w' l
            = ((case callback l (ErrorMsg (getErrorMessage core e)) of
                  None \<Rightarrow> Returned
                | Some e' \<Rightarrow> Raised e'),
               w', l @ [ErrorMsg (getErrorMessage core e)])"
    by (simp add: streamQuery_catch_eq)
qed

theorem loop_ends_iff_no_requests_or_failure_witness:
  "streamQuery demo_core (client_config answering_client) quiet_callback 1 (JStr ''hello'') []
     = (Returned, [''sendMessageStream''],
        [Content ''final answer'', Finished ''STOP'' ''session-id########0.5''])"
proof -
  let ?config = "client_config answering_client"
  let ?sched = "execute demo_core ?config"
  let ?pid = "getSessionId ?config @ ''########'' @ ''0.5''"
  let ?s = "Yield (EvContent ''final answer'') (Yield (EvFinished ''STOP'') Done)"
  have h1: "Math_random demo_core [] = (''0.5'', [])"
    by (simp add: demo_core_def)
  have h2: "answering_client (JStr ''hello'') ?pid [] = (?s, [''sendMessageStream''])"
    by (simp add: answering_client_def)
  have h3: "deliver quiet_callback [] (stream_messages demo_core ?pid ?s)
      = (None, [Content ''final answer'', Finished ''STOP'' ?pid])"
    by (simp add: quiet_callback_def)
  have first: "getGeminiClient ?config = Some answering_client \<and> ([] :: BotMessage list) = []
      \<and> stream_requests ?s = []"
    by (simp add: client_config_def)
  have "streamQuery_with demo_core ?config ?sched quiet_callback (Suc 0) (JStr ''hello'') []
      = (case (case (None :: thrown option) of Some e \<Rightarrow> Some e | None \<Rightarrow> stream_failure ?s) of
           None \<Rightarrow> (Returned, [''sendMessageStream''],
                     [Content ''final answer'', Finished ''STOP'' ?pid])
         | Some e \<Rightarrow>
             streamQuery_catch demo_core quiet_callback e [''sendMessageStream'']
               [Content ''final answer'', Finished ''STOP'' ?pid])"
    using loop_ends_iff_no_requests_or_failure [where client = answering_client
        and currentPrompt = "JStr ''hello''" and config = ?config and sched = ?sched
        and callback = quiet_callback and log = "[]" and fuel = 0,
        OF h1 h2 h3, THEN conjunct1, THEN mp, OF first] .
  then show ?thesis
    by (simp add: streamQuery_def client_config_def)
qed

end
